theory Spec2Isabelle
  imports Complex_Main "HOL-Library.AList" "HOL-Library.Char_ord" "HOL-Library.List_Lexorder"
begin

section \<open>Data model\<close>

text \<open>
  The pipeline exchanges pandas DataFrames built from JSON records. A scalar is null
  (Python \<open>None\<close> and the float NaN, which pandas does not tell apart), a string, a
  number or a boolean. Numbers are exact rationals extended by the two infinities a
  float can hold; binary rounding of floats is not modelled.
\<close>

datatype xnum = NegInf | Fin rat | PosInf

datatype val = Null | Str string | Num xnum | Bool bool

text \<open>
  The column types pandas tells apart in the code under study: \<open>str\<close> (what
  \<open>select_dtypes(include="str")\<close> selects), \<open>object\<close>, the numeric types and
  \<open>bool\<close>.
\<close>

datatype dtype = StrT | ObjectT | NumT | BoolT

text \<open>
  A record is a Python dict: an association list from field name to scalar. A Dataset
  is a DataFrame: its columns in order, each with its type, and its records in order.
  A field a record does not carry reads as null, as in a DataFrame built from dicts
  with differing keys.
\<close>

type_synonym row = "(string \<times> val) list"

record dataset =
  columns :: "(string \<times> dtype) list"
  rows :: "row list"

datatype error =
    KeyError string
  | FileNotFoundError
  | JSONDecodeError
  | ValueError
  | AttributeError
  | TypeError
  | IsADirectoryError
  | PermissionError

definition get :: "row \<Rightarrow> string \<Rightarrow> val" where
  "get r c = (case map_of r c of None \<Rightarrow> Null | Some v \<Rightarrow> v)"

definition put :: "string \<Rightarrow> val \<Rightarrow> row \<Rightarrow> row" where
  "put c v r = AList.update c v r"

definition col_names :: "dataset \<Rightarrow> string list" where
  "col_names df = map fst (columns df)"

definition has_col :: "dataset \<Rightarrow> string \<Rightarrow> bool" where
  "has_col df c = (c \<in> set (col_names df))"

text \<open>\<open>df[c]\<close> for a column that exists: the values of the column, record by record.\<close>

definition col :: "dataset \<Rightarrow> string \<Rightarrow> val list" where
  "col df c = map (\<lambda>r. get r c) (rows df)"

definition col_dtype :: "dataset \<Rightarrow> string \<Rightarrow> dtype" where
  "col_dtype df c = (case map_of (columns df) c of None \<Rightarrow> ObjectT | Some t \<Rightarrow> t)"

text \<open>
  \<open>df[c] = series\<close>: the column is replaced where it stands, or appended as the last
  column when it is new; every record gets its value of the series.
\<close>

definition set_col :: "string \<Rightarrow> dtype \<Rightarrow> val list \<Rightarrow> dataset \<Rightarrow> dataset" where
  "set_col c t vs df =
     \<lparr>columns = AList.update c t (columns df),
      rows = map (\<lambda>(r, v). put c v r) (zip (rows df) vs)\<rparr>"

text \<open>\<open>len(df)\<close> and \<open>df.empty\<close> (no record, or no column).\<close>

definition len :: "dataset \<Rightarrow> nat" where
  "len df = length (rows df)"

definition empty :: "dataset \<Rightarrow> bool" where
  "empty df = (rows df = [] \<or> columns df = [])"

subsection \<open>Scalars as pandas compares them\<close>

text \<open>
  Python's \<open>True == 1\<close> and \<open>False == 0\<close>, and hashing agrees; the hash tables behind
  \<open>drop_duplicates\<close>, \<open>isin\<close>, \<open>groupby\<close> and \<open>nunique\<close> therefore identify a
  boolean with its number. All nulls fall into one class.
\<close>

fun py_key :: "val \<Rightarrow> val" where
  "py_key (Bool b) = Num (Fin (if b then 1 else 0))"
| "py_key v = v"

definition notnull :: "val \<Rightarrow> bool" where
  "notnull v = (v \<noteq> Null)"

definition dropna :: "val list \<Rightarrow> val list" where
  "dropna vs = filter notnull vs"

definition isin :: "val set \<Rightarrow> val \<Rightarrow> bool" where
  "isin allowed v = (py_key v \<in> py_key ` allowed)"

text \<open>\<open>Series.unique()\<close>: the distinct values in order of first appearance.\<close>

fun unique :: "val list \<Rightarrow> val list" where
  "unique [] = []"
| "unique (v # vs) = v # unique (filter (\<lambda>w. py_key w \<noteq> py_key v) vs)"

fun xnum_less :: "xnum \<Rightarrow> xnum \<Rightarrow> bool" where
  "xnum_less NegInf b = (b \<noteq> NegInf)"
| "xnum_less (Fin a) (Fin b) = (a < b)"
| "xnum_less (Fin a) PosInf = True"
| "xnum_less (Fin a) NegInf = False"
| "xnum_less PosInf b = False"

definition xnum_le :: "xnum \<Rightarrow> xnum \<Rightarrow> bool" where
  "xnum_le a b = (a = b \<or> xnum_less a b)"

section \<open>Quality gate (data_quality.py)\<close>

text \<open>
  A check returns \<open>{check_name, passed, details}\<close>. The details are f-strings; each
  template is one constructor below, carrying the values the template interpolates.
  Several issues are joined by \<open>" | "\<close> in the source and are a list here. The
  calls to the logger carry no result and are left out of this section.
\<close>

datatype detail =
    NullChecksPassed
  | ColumnNotInDataFrame string
  | NullRateExceeds string rat rat
  | UniquePassed
  | DuplicateRows nat "string list"
  | VolumeOK nat
  | RowsBelowMin nat int
  | RowsAboveMax nat int
  | AllValuesValid string
  | ColumnNotFound string
  | InvalidValues string nat "val list"
  | SchemaPassed
  | MissingColumns "string list"

record check_result =
  check_name :: string
  passed :: bool
  details :: "detail list"

text \<open>
  \<open>df[col].isna().mean()\<close>: the share of nulls; the mean of no value is NaN, and
  \<open>NaN > threshold\<close> is false.
\<close>

definition null_rate :: "val list \<Rightarrow> rat option" where
  "null_rate vs =
     (if vs = [] then None
      else Some (of_nat (length (filter (\<lambda>v. v = Null) vs)) / of_nat (length vs)))"

definition check_nulls_issues :: "dataset \<Rightarrow> rat \<Rightarrow> string \<Rightarrow> detail list" where
  "check_nulls_issues df threshold c =
     (if \<not> has_col df c then [ColumnNotInDataFrame c]
      else case null_rate (col df c) of
             None \<Rightarrow> []
           | Some rate \<Rightarrow> if rate > threshold then [NullRateExceeds c rate threshold] else [])"

definition check_nulls :: "dataset \<Rightarrow> string list \<Rightarrow> rat \<Rightarrow> check_result" where
  "check_nulls df cols threshold =
     (let issues = concat (map (check_nulls_issues df threshold) cols);
          passed = (length issues = 0)
      in \<lparr>check_name = ''check_nulls'', passed = passed,
          details = (if passed then [NullChecksPassed] else issues)\<rparr>)"

definition check_volume :: "dataset \<Rightarrow> int \<Rightarrow> int option \<Rightarrow> check_result" where
  "check_volume df min_rows max_rows =
     (let n = len df;
          issues = (if int n < min_rows then [RowsBelowMin n min_rows] else []) @
                   (case max_rows of
                      None \<Rightarrow> []
                    | Some m \<Rightarrow> if int n > m then [RowsAboveMax n m] else []);
          passed = (length issues = 0)
      in \<lparr>check_name = ''check_volume'', passed = passed,
          details = (if passed then [VolumeOK n] else issues)\<rparr>)"

definition check_allowed_values ::
  "dataset \<Rightarrow> string \<Rightarrow> val set \<Rightarrow> bool \<Rightarrow> check_result" where
  "check_allowed_values df column allowed null_ok =
     (if \<not> has_col df column then
        \<lparr>check_name = ''check_allowed_values'', passed = False,
         details = [ColumnNotFound column]\<rparr>
      else
        let series = (if null_ok then col df column else dropna (col df column));
            invalid = filter (\<lambda>v. \<not> isin allowed v) (dropna series);
            passed = (length invalid = 0)
        in \<lparr>check_name = ''check_allowed_values'', passed = passed,
            details = (if passed then [AllValuesValid column]
                       else [InvalidValues column (length invalid) (take 10 (unique invalid))])\<rparr>)"

definition check_schema :: "dataset \<Rightarrow> string list \<Rightarrow> check_result" where
  "check_schema df expected_columns =
     (let missing = filter (\<lambda>c. \<not> has_col df c) expected_columns;
          passed = (length missing = 0)
      in \<lparr>check_name = ''check_schema'', passed = passed,
          details = (if passed then [SchemaPassed] else [MissingColumns missing])\<rparr>)"

text \<open>
  \<open>run_suite\<close> prints the report, then raises \<open>ValueError\<close> or returns the overall
  verdict. The printed lines are the first component of the result: they are printed
  before the raise, so they are there in both cases.
\<close>

datatype report_line =
    ReportTitle
  | ReportRule
  | CheckLine bool string "detail list"
  | OverallLine bool

definition run_suite :: "check_result list \<Rightarrow> bool \<Rightarrow> report_line list \<times> (error + bool)" where
  "run_suite checks raise_on_failure =
     (let all_passed = list_all passed checks;
          printed = [ReportTitle, ReportRule] @
                    map (\<lambda>c. CheckLine (passed c) (check_name c) (details c)) checks @
                    [ReportRule, OverallLine all_passed]
      in (printed,
          if \<not> all_passed \<and> raise_on_failure then Inl ValueError else Inr all_passed))"

section \<open>Silver transformation (silver.py)\<close>

text \<open>
  What the run takes from outside the repository: how \<open>pd.to_numeric\<close> reads a string
  (\<open>None\<close> where \<open>errors="coerce"\<close> yields NaN), how Python's \<open>str()\<close> prints a
  number, and the UTC time \<open>add_metadata\<close> formats.
\<close>

record env =
  to_float :: "string \<Rightarrow> xnum option"
  str_of_num :: "xnum \<Rightarrow> string"
  utc_now :: string

text \<open>One constructor per message the Silver stage writes to its logger.\<close>

datatype log_msg =
    LoadingPartition string
  | LoadedRecords nat nat
  | Deduplicated int nat
  | StringsCleaned
  | PhonesNormalized
  | PostalCodesNormalized
  | InvalidLongitudes nat
  | InvalidLatitudes nat
  | BreweryTypeStandardized
  | ColumnsDropped "string list"
  | MetadataAdded

subsection \<open>Strings\<close>

text \<open>
  A string is the list of its code points, which are taken to lie below 256.
  \<open>isspace\<close> lists the code points of that range Python's \<open>str.strip()\<close> removes;
  \<open>upper\<close> and \<open>lower\<close> map the ASCII letters.
\<close>

definition isspace :: "char \<Rightarrow> bool" where
  "isspace c = ((of_char c :: nat) \<in> {9, 10, 11, 12, 13, 28, 29, 30, 31, 32, 133, 160})"

definition strip :: "string \<Rightarrow> string" where
  "strip s = rev (dropWhile isspace (rev (dropWhile isspace s)))"

definition upper_char :: "char \<Rightarrow> char" where
  "upper_char c =
     (if CHR ''a'' \<le> c \<and> c \<le> CHR ''z'' then char_of (of_char c - (32 :: nat)) else c)"

definition lower_char :: "char \<Rightarrow> char" where
  "lower_char c =
     (if CHR ''A'' \<le> c \<and> c \<le> CHR ''Z'' then char_of (of_char c + (32 :: nat)) else c)"

definition upper :: "string \<Rightarrow> string" where
  "upper s = map upper_char s"

definition lower :: "string \<Rightarrow> string" where
  "lower s = map lower_char s"

definition isdigit :: "char \<Rightarrow> bool" where
  "isdigit c = (CHR ''0'' \<le> c \<and> c \<le> CHR ''9'')"

text \<open>
  The type pandas 3 infers for a column from its values: \<open>str\<close> when the values that
  are not null are all strings, numeric when they are all numbers, \<open>bool\<close> when every
  value is a boolean, \<open>object\<close> otherwise (also when there is no value to look at).
\<close>

definition is_str :: "val \<Rightarrow> bool" where
  "is_str v = (case v of Str _ \<Rightarrow> True | _ \<Rightarrow> False)"

definition is_num :: "val \<Rightarrow> bool" where
  "is_num v = (case v of Num _ \<Rightarrow> True | _ \<Rightarrow> False)"

definition is_bool :: "val \<Rightarrow> bool" where
  "is_bool v = (case v of Bool _ \<Rightarrow> True | _ \<Rightarrow> False)"

definition infer_dtype :: "val list \<Rightarrow> dtype" where
  "infer_dtype vs =
     (if dropna vs = [] then ObjectT
      else if list_all is_str (dropna vs) then StrT
      else if list_all is_num (dropna vs) then NumT
      else if list_all is_bool vs then BoolT
      else ObjectT)"

text \<open>
  The \<open>.str\<close> accessor raises \<open>AttributeError\<close> on a numeric or boolean column, and on
  an \<open>object\<close> column whose values are all numbers or all booleans; an \<open>object\<close>
  column without a value, or with strings among its values, is accepted. Its methods
  give NaN where the value is not a string.
\<close>

definition str_ok :: "dtype \<Rightarrow> val list \<Rightarrow> bool" where
  "str_ok t vs =
     (case t of
        StrT \<Rightarrow> True
      | ObjectT \<Rightarrow> dropna vs = [] \<or>
                  (\<not> list_all is_num (dropna vs) \<and> \<not> list_all is_bool (dropna vs))
      | NumT \<Rightarrow> False
      | BoolT \<Rightarrow> False)"

definition str_map :: "(string \<Rightarrow> string) \<Rightarrow> val \<Rightarrow> val" where
  "str_map f v = (case v of Str s \<Rightarrow> Str (f s) | _ \<Rightarrow> Null)"

text \<open>
  \<open>df[c].str.m()\<close> stored back into \<open>df[c]\<close>: the accessor check, then the method on
  every value. A \<open>str\<close> column stays one; an \<open>object\<close> column stays \<open>object\<close>.
\<close>

definition str_method :: "string \<Rightarrow> (string \<Rightarrow> string) \<Rightarrow> dataset \<Rightarrow> error + dataset" where
  "str_method c f df =
     (if str_ok (col_dtype df c) (col df c)
      then Inr (set_col c (col_dtype df c) (map (str_map f) (col df c)) df)
      else Inl AttributeError)"

subsection \<open>Transforms\<close>

text \<open>
  \<open>drop_duplicates(subset=c, keep="last")\<close>: a record stays when no later record has its
  value of \<open>c\<close>. pandas returns an empty frame as it is before it looks at \<open>subset\<close>;
  otherwise a missing column is a \<open>KeyError\<close>.
\<close>

fun keep_last :: "string \<Rightarrow> row list \<Rightarrow> row list" where
  "keep_last c [] = []"
| "keep_last c (r # rs) =
     (if py_key (get r c) \<in> set (map (\<lambda>s. py_key (get s c)) rs)
      then keep_last c rs else r # keep_last c rs)"

definition drop_duplicates_last :: "string \<Rightarrow> dataset \<Rightarrow> error + dataset" where
  "drop_duplicates_last c df =
     (if empty df then Inr df
      else if \<not> has_col df c then Inl (KeyError c)
      else Inr (df\<lparr>rows := keep_last c (rows df)\<rparr>))"

definition deduplicate :: "dataset \<Rightarrow> error + dataset \<times> log_msg list" where
  "deduplicate df =
     (let n_before = len df
      in case drop_duplicates_last ''id'' df of
           Inl e \<Rightarrow> Inl e
         | Inr df' \<Rightarrow>
             (let dropped = int n_before - int (len df')
              in Inr (df', [Deduplicated dropped (len df')])))"

definition select_dtypes_str :: "dataset \<Rightarrow> string list" where
  "select_dtypes_str df = map fst (filter (\<lambda>(c, t). t = StrT) (columns df))"

text \<open>The loop of \<open>clean_strings\<close>: one \<open>.str.strip()\<close> per selected column, in order.\<close>

fun strip_cols :: "string list \<Rightarrow> dataset \<Rightarrow> error + dataset" where
  "strip_cols [] df = Inr df"
| "strip_cols (c # cs) df =
     (case str_method c strip df of Inl e \<Rightarrow> Inl e | Inr df' \<Rightarrow> strip_cols cs df')"

definition clean_strings :: "dataset \<Rightarrow> error + dataset \<times> log_msg list" where
  "clean_strings df =
     (let str_cols = select_dtypes_str df
      in case strip_cols str_cols df of
           Inl e \<Rightarrow> Inl e
         | Inr df' \<Rightarrow> Inr (df', [StringsCleaned]))"

definition py_str :: "env \<Rightarrow> val \<Rightarrow> string" where
  "py_str E v =
     (case v of
        Null \<Rightarrow> ''nan''
      | Str s \<Rightarrow> s
      | Num x \<Rightarrow> str_of_num E x
      | Bool b \<Rightarrow> (if b then ''True'' else ''False''))"

definition normalize_phone :: "env \<Rightarrow> dataset \<Rightarrow> error + dataset \<times> log_msg list" where
  "normalize_phone E df =
     (if has_col df ''phone'' then
        let digits = map (\<lambda>x. if notnull x then Str (filter isdigit (py_str E x)) else Null)
                       (col df ''phone'');
            df1 = set_col ''phone'' (infer_dtype digits) digits df;
            replaced = map (\<lambda>x. if x = Str [] then Null else x) (col df1 ''phone'');
            df2 = set_col ''phone'' (infer_dtype replaced) replaced df1
        in Inr (df2, [PhonesNormalized])
      else Inr (df, [PhonesNormalized]))"

definition normalize_postal_code :: "dataset \<Rightarrow> error + dataset \<times> log_msg list" where
  "normalize_postal_code df =
     (if has_col df ''postal_code'' then
        case str_method ''postal_code'' strip df of
          Inl e \<Rightarrow> Inl e
        | Inr df1 \<Rightarrow>
            (case str_method ''postal_code'' upper df1 of
               Inl e \<Rightarrow> Inl e
             | Inr df2 \<Rightarrow> Inr (df2, [PostalCodesNormalized]))
      else Inr (df, [PostalCodesNormalized]))"

text \<open>
  \<open>pd.to_numeric(series, errors="coerce")\<close> value by value: a number stays, a boolean
  reads as 0 or 1, a string is read by the library or becomes NaN, null stays null.
\<close>

definition to_numeric :: "env \<Rightarrow> val \<Rightarrow> val" where
  "to_numeric E v =
     (case v of
        Null \<Rightarrow> Null
      | Str s \<Rightarrow> (case to_float E s of None \<Rightarrow> Null | Some x \<Rightarrow> Num x)
      | Num x \<Rightarrow> Num x
      | Bool b \<Rightarrow> Num (Fin (if b then 1 else 0)))"

text \<open>\<open>series.between(lo, hi, inclusive="both")\<close>: false on a null.\<close>

definition between :: "rat \<Rightarrow> rat \<Rightarrow> val \<Rightarrow> bool" where
  "between lo hi v =
     (case py_key v of Num x \<Rightarrow> xnum_le (Fin lo) x \<and> xnum_le x (Fin hi) | _ \<Rightarrow> False)"

text \<open>\<open>df.loc[mask, c] = None\<close>.\<close>

definition loc_set_null :: "bool list \<Rightarrow> string \<Rightarrow> dataset \<Rightarrow> dataset" where
  "loc_set_null sel c df =
     df\<lparr>rows := map (\<lambda>(r, m). if m then put c Null r else r) (zip (rows df) sel)\<rparr>"

definition validate_column :: "env \<Rightarrow> string \<Rightarrow> rat \<Rightarrow> rat \<Rightarrow> dataset \<Rightarrow> dataset \<times> nat" where
  "validate_column E c lo hi df =
     (let df1 = set_col c NumT (map (to_numeric E) (col df c)) df;
          invalid = map (\<lambda>v. \<not> between lo hi v) (col df1 c);
          df2 = loc_set_null invalid c df1
      in (df2, length (filter id invalid)))"

definition validate_coordinates :: "env \<Rightarrow> dataset \<Rightarrow> error + dataset \<times> log_msg list" where
  "validate_coordinates E df =
     (let (df1, log1) =
            (if has_col df ''longitude'' then
               (let (d, n) = validate_column E ''longitude'' (- 180) 180 df
                in (d, [InvalidLongitudes n]))
             else (df, []));
          (df2, log2) =
            (if has_col df1 ''latitude'' then
               (let (d, n) = validate_column E ''latitude'' (- 90) 90 df1
                in (d, [InvalidLatitudes n]))
             else (df1, []))
      in Inr (df2, log1 @ log2))"

definition KNOWN_BREWERY_TYPES :: "string set" where
  "KNOWN_BREWERY_TYPES =
     {''micro'', ''nano'', ''regional'', ''brewpub'', ''large'',
      ''planning'', ''bar'', ''contract'', ''proprietor'', ''taproom'', ''closed''}"

definition known_or_unknown :: "val \<Rightarrow> val" where
  "known_or_unknown x =
     (case x of
        Str s \<Rightarrow> if s \<in> KNOWN_BREWERY_TYPES then Str s else Str ''unknown''
      | _ \<Rightarrow> Str ''unknown'')"

definition standardize_brewery_type :: "dataset \<Rightarrow> error + dataset \<times> log_msg list" where
  "standardize_brewery_type df =
     (if has_col df ''brewery_type'' then
        case str_method ''brewery_type'' lower df of
          Inl e \<Rightarrow> Inl e
        | Inr df1 \<Rightarrow>
            (case str_method ''brewery_type'' strip df1 of
               Inl e \<Rightarrow> Inl e
             | Inr df2 \<Rightarrow>
                 (let mapped = map known_or_unknown (col df2 ''brewery_type'')
                  in Inr (set_col ''brewery_type'' (infer_dtype mapped) mapped df2,
                          [BreweryTypeStandardized])))
      else Inr (df, [BreweryTypeStandardized]))"

text \<open>\<open>df.drop(columns=cs)\<close> for columns that exist.\<close>

definition drop_columns :: "string list \<Rightarrow> dataset \<Rightarrow> dataset" where
  "drop_columns cs df =
     \<lparr>columns = filter (\<lambda>(c, t). c \<notin> set cs) (columns df),
      rows = map (filter (\<lambda>(c, v). c \<notin> set cs)) (rows df)\<rparr>"

definition drop_redundant_columns :: "dataset \<Rightarrow> error + dataset \<times> log_msg list" where
  "drop_redundant_columns df =
     (let cols_to_drop = filter (has_col df) [''address_2'', ''address_3'', ''street'']
      in Inr (drop_columns cols_to_drop df, [ColumnsDropped cols_to_drop]))"

definition add_metadata :: "env \<Rightarrow> dataset \<Rightarrow> error + dataset \<times> log_msg list" where
  "add_metadata E df =
     Inr (set_col ''processed_at'' (if rows df = [] then ObjectT else StrT)
            (replicate (len df) (Str (utc_now E))) df,
          [MetadataAdded])"

text \<open>
  One step of \<open>transform\<close>: the next function is applied to the frame the previous one
  returned; an exception of any step ends the run.
\<close>

definition and_then ::
  "(error + dataset \<times> log_msg list) \<Rightarrow> (dataset \<Rightarrow> error + dataset \<times> log_msg list)
     \<Rightarrow> (error + dataset \<times> log_msg list)" where
  "and_then m f =
     (case m of
        Inl e \<Rightarrow> Inl e
      | Inr (df, logs) \<Rightarrow>
          (case f df of Inl e \<Rightarrow> Inl e | Inr (df', logs') \<Rightarrow> Inr (df', logs @ logs')))"

definition transform :: "env \<Rightarrow> dataset \<Rightarrow> error + dataset \<times> log_msg list" where
  "transform E df =
     and_then (and_then (and_then (and_then (and_then (and_then (and_then
       (deduplicate df)
       clean_strings)
       (normalize_phone E))
       normalize_postal_code)
       (validate_coordinates E))
       standardize_brewery_type)
       drop_redundant_columns)
       (add_metadata E)"

subsection \<open>Loading the latest Bronze partition\<close>

text \<open>
  The file system as the loader sees it: the entries of a directory in the order the
  operating system lists them (none for a path that is not a directory); what
  \<open>glob\<close> yields for a directory pattern that contains a metacharacter, namely the
  existing directories whose path matches the pattern; and what \<open>open(file_path)\<close>
  followed by \<open>json.load(f)\<close> gives for a path: the records of the file, or the
  exception that either of the two raises.
\<close>

record file_system =
  listdir :: "string \<Rightarrow> string list"
  glob_dirs :: "string \<Rightarrow> string list"
  open_json :: "string \<Rightarrow> error + row list"

text \<open>
  \<open>os.path.join(a, b)\<close> and \<open>os.path.split(p)\<close> of \<open>posixpath\<close>: the second
  component replaces the first when it is absolute, and a separator is put between the
  two unless the first is empty or ends with one; the head of a split is the path up to
  its last separator, without trailing separators unless it consists of separators.
\<close>

definition os_path_join :: "string \<Rightarrow> string \<Rightarrow> string" where
  "os_path_join a b =
     (if b \<noteq> [] \<and> hd b = CHR ''/'' then b
      else if a = [] \<or> last a = CHR ''/'' then a @ b
      else a @ ''/'' @ b)"

definition os_path_split :: "string \<Rightarrow> string \<times> string" where
  "os_path_split p =
     (let head = rev (dropWhile (\<lambda>c. c \<noteq> CHR ''/'') (rev p));
          tail = rev (takeWhile (\<lambda>c. c \<noteq> CHR ''/'') (rev p))
      in (if head \<noteq> [] \<and> \<not> list_all (\<lambda>c. c = CHR ''/'') head
          then rev (dropWhile (\<lambda>c. c = CHR ''/'') (rev head)) else head,
          tail))"

definition starts_with :: "string \<Rightarrow> string \<Rightarrow> bool" where
  "starts_with p n = (take (length p) n = p)"

definition ends_with :: "string \<Rightarrow> string \<Rightarrow> bool" where
  "ends_with s n = (length s \<le> length n \<and> drop (length n - length s) n = s)"

text \<open>
  \<open>glob.has_magic\<close>: the path contains one of \<open>*\<close>, \<open>?\<close>, \<open>[\<close>. A name is hidden
  when it begins with a dot.
\<close>

definition has_magic :: "string \<Rightarrow> bool" where
  "has_magic s = list_ex (\<lambda>c. c = CHR ''*'' \<or> c = CHR ''?'' \<or> c = CHR ''['') s"

definition ishidden :: "string \<Rightarrow> bool" where
  "ishidden n = (n \<noteq> [] \<and> hd n = CHR ''.'')"

text \<open>
  \<open>fnmatch\<close> for the two patterns of the loader: \<open>ingestion_date=*\<close> matches the names
  that begin with \<open>ingestion_date=\<close>, and \<open>*.json\<close> the names that end with \<open>.json\<close>.
\<close>

definition fnmatch_partition :: "string \<Rightarrow> bool" where
  "fnmatch_partition n = starts_with ''ingestion_date='' n"

definition fnmatch_json :: "string \<Rightarrow> bool" where
  "fnmatch_json n = ends_with ''.json'' n"

text \<open>
  \<open>glob._glob1(dirname, pattern)\<close> for a pattern that is not hidden: the entries of
  the directory (of the current directory when \<open>dirname\<close> is empty) that are not hidden
  and match, in listing order.
\<close>

definition glob1 :: "file_system \<Rightarrow> string \<Rightarrow> (string \<Rightarrow> bool) \<Rightarrow> string list" where
  "glob1 fs dirname matches =
     filter matches (filter (\<lambda>n. \<not> ishidden n)
       (listdir fs (if dirname = [] then ''.'' else dirname)))"

text \<open>
  \<open>glob.glob(pathname)\<close> for a path whose last component is one of the two patterns
  (\<open>matches\<close> is the \<open>fnmatch\<close> of that component). The path is split; without a
  directory part the matching names of the current directory are returned as they are;
  otherwise the directory part is taken as it is when it has no metacharacter and is
  itself expanded as a pattern when it has one, and the matching names of each
  directory are joined to it.
\<close>

definition glob :: "file_system \<Rightarrow> string \<Rightarrow> (string \<Rightarrow> bool) \<Rightarrow> string list" where
  "glob fs pathname matches =
     (let dirname = fst (os_path_split pathname)
      in if dirname = [] then glob1 fs dirname matches
         else
           let dirs = (if has_magic dirname then glob_dirs fs dirname else [dirname])
           in concat (map (\<lambda>dir. map (os_path_join dir) (glob1 fs dir matches)) dirs))"

text \<open>
  The loop \<open>records.extend(json.load(f))\<close> over the files: the first exception of
  \<open>open\<close> or \<open>json.load\<close> ends it.
\<close>

fun read_all :: "file_system \<Rightarrow> string list \<Rightarrow> error + row list" where
  "read_all fs [] = Inr []"
| "read_all fs (f # files) =
     (case open_json fs f of
        Inl e \<Rightarrow> Inl e
      | Inr rs \<Rightarrow> (case read_all fs files of Inl e \<Rightarrow> Inl e | Inr rest \<Rightarrow> Inr (rs @ rest)))"

text \<open>
  \<open>pd.DataFrame(records)\<close>: the columns are the keys of the dicts in order of first
  appearance, each with its inferred type; the records are the rows.
\<close>

definition first_seen :: "string list \<Rightarrow> string list" where
  "first_seen xs = rev (remdups (rev xs))"

definition DataFrame :: "row list \<Rightarrow> dataset" where
  "DataFrame records =
     \<lparr>columns = map (\<lambda>c. (c, infer_dtype (map (\<lambda>r. get r c) records)))
                  (first_seen (concat (map (map fst) records))),
      rows = records\<rparr>"

definition load_latest_bronze ::
  "file_system \<Rightarrow> string \<Rightarrow> log_msg list \<times> (error + dataset)" where
  "load_latest_bronze fs bronze_dir =
     (let partitions =
            sort (glob fs (os_path_join bronze_dir ''ingestion_date=*'') fnmatch_partition)
      in if partitions = [] then ([], Inl FileNotFoundError)
         else
           let latest_partition = last partitions;
               json_files = glob fs (os_path_join latest_partition ''*.json'') fnmatch_json
           in if json_files = [] then ([LoadingPartition latest_partition], Inl FileNotFoundError)
              else case read_all fs json_files of
                     Inl e \<Rightarrow> ([LoadingPartition latest_partition], Inl e)
                   | Inr records \<Rightarrow>
                       (let df = DataFrame records
                        in ([LoadingPartition latest_partition,
                             LoadedRecords (len df) (length json_files)], Inr df)))"

section \<open>Gold aggregation (gold.py)\<close>

subsection \<open>Sorting and grouping\<close>

text \<open>
  \<open>sort_values\<close> orders numbers by value and strings by code point, puts nulls last
  whatever the direction, and raises \<open>TypeError\<close> on a column that mixes strings with
  numbers. Records that compare equal keep their order (pandas does not fix the order
  of ties for a single sort column).
\<close>

definition as_num :: "val \<Rightarrow> xnum option" where
  "as_num v = (case py_key v of Num x \<Rightarrow> Some x | _ \<Rightarrow> None)"

definition val_less :: "val \<Rightarrow> val \<Rightarrow> bool" where
  "val_less a b =
     (case (a, b) of
        (Str s, Str t) \<Rightarrow> s < t
      | _ \<Rightarrow> (case (as_num a, as_num b) of
               (Some x, Some y) \<Rightarrow> xnum_less x y
             | _ \<Rightarrow> False))"

definition comparable :: "val list \<Rightarrow> bool" where
  "comparable vs =
     (list_all is_str (dropna vs) \<or> list_all (\<lambda>v. as_num v \<noteq> None) (dropna vs))"

definition key_before :: "bool \<Rightarrow> val \<Rightarrow> val \<Rightarrow> bool" where
  "key_before ascending a b =
     (if a = Null then False
      else if b = Null then True
      else if ascending then val_less a b else val_less b a)"

fun row_before :: "(string \<times> bool) list \<Rightarrow> row \<Rightarrow> row \<Rightarrow> bool" where
  "row_before [] r s = False"
| "row_before ((c, ascending) # ks) r s =
     (key_before ascending (get r c) (get s c) \<or>
      (\<not> key_before ascending (get s c) (get r c) \<and> row_before ks r s))"

fun insort_row :: "(string \<times> bool) list \<Rightarrow> row \<Rightarrow> row list \<Rightarrow> row list" where
  "insort_row ks r [] = [r]"
| "insort_row ks r (s # ss) =
     (if row_before ks s r then s # insort_row ks r ss else r # s # ss)"

definition sort_rows :: "(string \<times> bool) list \<Rightarrow> row list \<Rightarrow> row list" where
  "sort_rows ks rs = foldr (insort_row ks) rs []"

definition sort_values :: "(string \<times> bool) list \<Rightarrow> row list \<Rightarrow> error + row list" where
  "sort_values ks rs =
     (if list_all (\<lambda>(c, ascending). comparable (map (\<lambda>r. get r c) rs)) ks
      then Inr (sort_rows ks rs) else Inl TypeError)"

text \<open>
  \<open>groupby(ks, dropna=...)\<close>: the records fall into groups by their values of \<open>ks\<close>;
  with \<open>dropna\<close> (the default of pandas) a record with a null among these values belongs
  to no group. The groups come in the order of their keys, the null key last. Each
  group is its key, as the columns \<open>reset_index\<close> gives, and its records.
\<close>

definition key_of :: "string list \<Rightarrow> row \<Rightarrow> val list" where
  "key_of ks r = map (\<lambda>c. py_key (get r c)) ks"

fun firsts :: "string list \<Rightarrow> row list \<Rightarrow> row list" where
  "firsts ks [] = []"
| "firsts ks (r # rs) = r # firsts ks (filter (\<lambda>s. key_of ks s \<noteq> key_of ks r) rs)"

definition groupby :: "string list \<Rightarrow> bool \<Rightarrow> row list \<Rightarrow> (row \<times> row list) list" where
  "groupby ks dropna_flag rs =
     (let kept = filter (\<lambda>r. \<not> dropna_flag \<or> Null \<notin> set (key_of ks r)) rs;
          reps = sort_rows (map (\<lambda>k. (k, True)) ks) (firsts ks kept)
      in map (\<lambda>r. (map (\<lambda>k. (k, get r k)) ks,
                    filter (\<lambda>s. key_of ks s = key_of ks r) kept)) reps)"

fun missing_col :: "dataset \<Rightarrow> string list \<Rightarrow> string option" where
  "missing_col df [] = None"
| "missing_col df (c # cs) = (if has_col df c then missing_col df cs else Some c)"

definition count_nat :: "nat \<Rightarrow> val" where
  "count_nat n = Num (Fin (of_nat n))"

text \<open>\<open>("id", "count")\<close>: the number of values of \<open>id\<close> in the group that are not null.\<close>

definition count_id :: "row list \<Rightarrow> nat" where
  "count_id g = length (dropna (map (\<lambda>r. get r ''id'') g))"

text \<open>
  \<open>df.groupby(ks, dropna=False).agg(brewery_count=("id", "count")).reset_index()\<close>,
  shared by the four counting aggregations.
\<close>

definition count_by :: "string list \<Rightarrow> dataset \<Rightarrow> error + row list" where
  "count_by ks df =
     (case missing_col df (ks @ [''id'']) of
        Some c \<Rightarrow> Inl (KeyError c)
      | None \<Rightarrow>
          Inr (map (\<lambda>(k, g). k @ [(''brewery_count'', count_nat (count_id g))])
                 (groupby ks False (rows df))))"

definition count_columns :: "string list \<Rightarrow> dataset \<Rightarrow> (string \<times> dtype) list" where
  "count_columns ks df = map (\<lambda>k. (k, col_dtype df k)) ks @ [(''brewery_count'', NumT)]"

text \<open>
  \<open>round(2)\<close> rounds half to even at the second decimal; on an infinity or a NaN it
  does nothing.
\<close>

definition round_half_even :: "rat \<Rightarrow> int" where
  "round_half_even q =
     (let f = floor q; d = q - of_int f
      in if d < 1 / 2 then f
         else if 1 / 2 < d then f + 1
         else if even f then f else f + 1)"

definition times100_round2 :: "val \<Rightarrow> val" where
  "times100_round2 v =
     (case v of
        Num (Fin q) \<Rightarrow> Num (Fin (of_int (round_half_even (q * 100 * 100)) / 100))
      | _ \<Rightarrow> v)"

text \<open>Float division of two counts: \<open>0 / 0\<close> is NaN and \<open>n / 0\<close> is infinite.\<close>

definition div_counts :: "nat \<Rightarrow> nat \<Rightarrow> val" where
  "div_counts a b =
     (if b = 0 then (if a = 0 then Null else Num PosInf)
      else Num (Fin (of_nat a / of_nat b)))"

subsection \<open>The eight aggregations\<close>

text \<open>
  An aggregation receives the DataFrame object of the caller. Its result is the state
  of that object when the aggregation returns, and the table it returns.
\<close>

type_synonym agg_result = "error + dataset \<times> dataset"

definition agg_breweries_by_type_and_state :: "dataset \<Rightarrow> agg_result" where
  "agg_breweries_by_type_and_state df =
     (case count_by [''brewery_type'', ''state_province''] df of
        Inl e \<Rightarrow> Inl e
      | Inr counted \<Rightarrow>
          (case sort_values [(''state_province'', True), (''brewery_count'', False)] counted of
             Inl e \<Rightarrow> Inl e
           | Inr result \<Rightarrow>
               Inr (df, \<lparr>columns = count_columns [''brewery_type'', ''state_province''] df,
                         rows = result\<rparr>)))"

definition agg_breweries_by_country_and_type :: "dataset \<Rightarrow> agg_result" where
  "agg_breweries_by_country_and_type df =
     (case count_by [''country'', ''brewery_type''] df of
        Inl e \<Rightarrow> Inl e
      | Inr counted \<Rightarrow>
          (case sort_values [(''country'', True), (''brewery_count'', False)] counted of
             Inl e \<Rightarrow> Inl e
           | Inr result \<Rightarrow>
               Inr (df, \<lparr>columns = count_columns [''country'', ''brewery_type''] df,
                         rows = result\<rparr>)))"

text \<open>\<open>head(n)\<close>: the first \<open>n\<close> records, or all but the last \<open>-n\<close> when \<open>n\<close> is negative.\<close>

definition head :: "int \<Rightarrow> row list \<Rightarrow> row list" where
  "head n rs = (if 0 \<le> n then take (nat n) rs else take (length rs - nat (- n)) rs)"

definition agg_top_cities :: "dataset \<Rightarrow> int \<Rightarrow> agg_result" where
  "agg_top_cities df top_n =
     (case count_by [''city'', ''state_province'', ''country''] df of
        Inl e \<Rightarrow> Inl e
      | Inr counted \<Rightarrow>
          (case sort_values [(''brewery_count'', False)] counted of
             Inl e \<Rightarrow> Inl e
           | Inr result \<Rightarrow>
               Inr (df, \<lparr>columns = count_columns [''city'', ''state_province'', ''country''] df,
                         rows = head top_n result\<rparr>)))"

definition agg_geo_coverage :: "dataset \<Rightarrow> agg_result" where
  "agg_geo_coverage df =
     (case count_by [''country'', ''state_province'', ''city''] df of
        Inl e \<Rightarrow> Inl e
      | Inr counted \<Rightarrow>
          (case sort_values [(''country'', True), (''state_province'', True),
                             (''brewery_count'', False)] counted of
             Inl e \<Rightarrow> Inl e
           | Inr result \<Rightarrow>
               Inr (df, \<lparr>columns = count_columns [''country'', ''state_province'', ''city''] df,
                         rows = result\<rparr>)))"

text \<open>
  \<open>agg_digital_maturity\<close> assigns three columns to the frame it was given before it
  groups; the grouping has no \<open>dropna=False\<close>.
\<close>

definition maturity_row :: "row \<times> row list \<Rightarrow> row" where
  "maturity_row kg =
     (let total = count_id (snd kg);
          ready = length (filter (\<lambda>r. py_key (get r ''digitally_ready'') = Num (Fin 1)) (snd kg))
      in fst kg @ [(''total_breweries'', count_nat total),
                   (''digitally_ready_count'', count_nat ready),
                   (''maturity_score'', times100_round2 (div_counts ready total))])"

definition agg_digital_maturity :: "dataset \<Rightarrow> agg_result" where
  "agg_digital_maturity df =
     (if \<not> has_col df ''website_url'' then Inl (KeyError ''website_url'')
      else
        let df1 = set_col ''has_website'' BoolT
                    (map (\<lambda>v. Bool (notnull v)) (col df ''website_url'')) df
        in if \<not> has_col df1 ''phone'' then Inl (KeyError ''phone'')
           else
             let df2 = set_col ''has_phone'' BoolT
                         (map (\<lambda>v. Bool (notnull v)) (col df1 ''phone'')) df1;
                 df3 = set_col ''digitally_ready'' BoolT
                         (map (\<lambda>(w, p). Bool (w = Bool True \<and> p = Bool True))
                            (zip (col df2 ''has_website'') (col df2 ''has_phone''))) df2
             in case missing_col df3 [''state_province'', ''id''] of
                  Some c \<Rightarrow> Inl (KeyError c)
                | None \<Rightarrow>
                    (case sort_values [(''maturity_score'', False)]
                            (map maturity_row (groupby [''state_province''] True (rows df3))) of
                       Inl e \<Rightarrow> Inl e
                     | Inr result \<Rightarrow>
                         Inr (df3, \<lparr>columns = [(''state_province'', col_dtype df3 ''state_province''),
                                               (''total_breweries'', NumT),
                                               (''digitally_ready_count'', NumT),
                                               (''maturity_score'', NumT)],
                                    rows = result\<rparr>)))"

definition agg_regional_diversity :: "dataset \<Rightarrow> agg_result" where
  "agg_regional_diversity df =
     (case missing_col df [''state_province'', ''brewery_type''] of
        Some c \<Rightarrow> Inl (KeyError c)
      | None \<Rightarrow>
          (case sort_values [(''unique_brewery_types'', False)]
                  (map (\<lambda>(k, g). k @ [(''unique_brewery_types'',
                          count_nat (length (unique (dropna (map (\<lambda>r. get r ''brewery_type'') g)))))])
                     (groupby [''state_province''] True (rows df))) of
             Inl e \<Rightarrow> Inl e
           | Inr result \<Rightarrow>
               Inr (df, \<lparr>columns = [(''state_province'', col_dtype df ''state_province''),
                                    (''unique_brewery_types'', NumT)],
                         rows = result\<rparr>)))"

text \<open>
  \<open>agg_market_specialization\<close>: the sizes of the groups of the micro breweries and of
  all breweries, joined on the state by \<open>pd.concat(axis=1)\<close>; a state without a micro
  brewery gets 0 from \<open>fillna(0)\<close>. Every state of the first series is a state of the
  second, so the join has the states of the second, in their order.
\<close>

definition group_sizes :: "row list \<Rightarrow> (val list \<times> nat) list" where
  "group_sizes rs =
     map (\<lambda>(k, g). (key_of [''state_province''] k, length g))
       (groupby [''state_province''] True rs)"

definition agg_market_specialization :: "dataset \<Rightarrow> agg_result" where
  "agg_market_specialization df =
     (case missing_col df [''brewery_type'', ''state_province''] of
        Some c \<Rightarrow> Inl (KeyError c)
      | None \<Rightarrow>
          (let micro_counts =
                 group_sizes (filter (\<lambda>r. py_key (get r ''brewery_type'') = Str ''micro'') (rows df));
               joined =
                 map (\<lambda>(k, g).
                        k @ [(''total_brewery_count'', count_nat (length g)),
                             (''micro_brewery_count'',
                              count_nat (case map_of micro_counts (key_of [''state_province''] k) of
                                           None \<Rightarrow> 0 | Some m \<Rightarrow> m))])
                   (groupby [''state_province''] True (rows df))
           in case sort_values [(''total_brewery_count'', False)] joined of
                Inl e \<Rightarrow> Inl e
              | Inr result \<Rightarrow>
                  Inr (df, \<lparr>columns = [(''state_province'', col_dtype df ''state_province''),
                                       (''total_brewery_count'', NumT),
                                       (''micro_brewery_count'', NumT)],
                            rows = result\<rparr>)))"

text \<open>
  \<open>agg_data_trust_score\<close> assigns the column \<open>completeness\<close> to the frame it was given
  before it groups; the grouping has no \<open>dropna=False\<close>.
\<close>

definition critical_cols :: "string list" where
  "critical_cols = [''address_1'', ''phone'', ''website_url'']"

definition the_rat :: "val \<Rightarrow> rat" where
  "the_rat v = (case v of Num (Fin q) \<Rightarrow> q | _ \<Rightarrow> 0)"

definition mean :: "rat list \<Rightarrow> val" where
  "mean qs = (if qs = [] then Null else Num (Fin (sum_list qs / of_nat (length qs))))"

definition agg_data_trust_score :: "dataset \<Rightarrow> agg_result" where
  "agg_data_trust_score df =
     (case missing_col df critical_cols of
        Some c \<Rightarrow> Inl (KeyError c)
      | None \<Rightarrow>
          (let completeness =
                 map (\<lambda>r. Num (Fin (of_nat (length (filter (\<lambda>c. notnull (get r c)) critical_cols))
                                     / of_nat (length critical_cols))))
                   (rows df);
               df1 = set_col ''completeness'' NumT completeness df
           in if \<not> has_col df1 ''state_province'' then Inl (KeyError ''state_province'')
              else
                case sort_values [(''trust_score'', False)]
                       (map (\<lambda>(k, g). k @ [(''trust_score'',
                               times100_round2
                                 (mean (map (\<lambda>r. the_rat (get r ''completeness'')) g)))])
                          (groupby [''state_province''] True (rows df1))) of
                  Inl e \<Rightarrow> Inl e
                | Inr result \<Rightarrow>
                    Inr (df1, \<lparr>columns = [(''state_province'', col_dtype df1 ''state_province''),
                                          (''trust_score'', NumT)],
                               rows = result\<rparr>)))"

subsection \<open>The Gold run\<close>

text \<open>
  \<open>process_gold\<close> hands the one frame \<open>silver_df\<close> to the eight aggregations in turn,
  so each aggregation sees the frame as the ones before it left it. The tables are
  kept under their names, in the order of the dict.
\<close>

type_synonym tables = "(string \<times> dataset) list"

definition then_agg ::
  "(error + dataset \<times> tables) \<Rightarrow> string \<Rightarrow> (dataset \<Rightarrow> agg_result) \<Rightarrow> (error + dataset \<times> tables)" where
  "then_agg m name f =
     (case m of
        Inl e \<Rightarrow> Inl e
      | Inr (df, ts) \<Rightarrow>
          (case f df of Inl e \<Rightarrow> Inl e | Inr (df', t) \<Rightarrow> Inr (df', ts @ [(name, t)])))"

definition aggregations :: "dataset \<Rightarrow> error + dataset \<times> tables" where
  "aggregations silver_df =
     then_agg (then_agg (then_agg (then_agg (then_agg (then_agg (then_agg (then_agg
       (Inr (silver_df, []))
       ''breweries_by_type_and_state'' agg_breweries_by_type_and_state)
       ''breweries_by_country_and_type'' agg_breweries_by_country_and_type)
       ''top_cities_by_brewery_count'' (\<lambda>df. agg_top_cities df 20))
       ''geo_coverage_by_state'' agg_geo_coverage)
       ''digital_maturity'' agg_digital_maturity)
       ''regional_diversity'' agg_regional_diversity)
       ''market_specialization'' agg_market_specialization)
       ''data_trust_score'' agg_data_trust_score"

definition gold_checks :: "tables \<Rightarrow> check_result list" where
  "gold_checks ts =
     concat (map (\<lambda>(name, df).
                    check_volume df 1 None #
                    (if has_col df ''brewery_count''
                     then [check_nulls df [''brewery_count''] 0] else []))
               ts)"

definition run_gold_dq :: "tables \<Rightarrow> report_line list \<times> (error + bool)" where
  "run_gold_dq ts = run_suite (gold_checks ts) True"

text \<open>
  \<open>process_gold\<close> after \<open>load_silver\<close> has returned \<open>silver_df\<close>. The documentation
  step is a collaborator outside the core: \<open>doc\<close> says whether it raises. The result
  is what was printed by the quality gate, and either the exception that ended the run
  or the tables \<open>save_gold\<close> wrote, in order.
\<close>

definition process_gold ::
  "(tables \<Rightarrow> error option) \<Rightarrow> dataset \<Rightarrow> report_line list \<times> (error + tables)" where
  "process_gold doc silver_df =
     (case aggregations silver_df of
        Inl e \<Rightarrow> ([], Inl e)
      | Inr (df', ts) \<Rightarrow>
          (case run_gold_dq ts of
             (printed, Inl e) \<Rightarrow> (printed, Inl e)
           | (printed, Inr ok) \<Rightarrow>
               (case doc ts of
                  Some e \<Rightarrow> (printed, Inl e)
                | None \<Rightarrow> (printed, Inr ts))))"

section \<open>Auxiliary notions for the properties\<close>

text \<open>The value of column \<open>c\<close> of a record as \<open>drop_duplicates\<close> compares it.\<close>

definition id_key :: "string \<Rightarrow> row \<Rightarrow> val" where
  "id_key c r = py_key (get r c)"

text \<open>What \<open>validate_coordinates\<close> does to one record for one coordinate column.\<close>

definition validate_row :: "env \<Rightarrow> string \<Rightarrow> rat \<Rightarrow> rat \<Rightarrow> row \<Rightarrow> row" where
  "validate_row E c lo hi r =
     (let r1 = put c (to_numeric E (get r c)) r
      in if between lo hi (get r1 c) then r1 else put c Null r1)"


text \<open>
  The frame without a record whose columns are \<open>cs\<close>: what pandas builds from zero
  records (\<open>cs\<close> empty) or from a list of column names alone, every column of type
  \<open>object\<close>.
\<close>

definition empty_frame :: "string list \<Rightarrow> dataset" where
  "empty_frame cs = \<lparr>columns = map (\<lambda>c. (c, ObjectT)) cs, rows = []\<rparr>"

text \<open>A column on which the \<open>.str\<close> accessor is defined whatever its values.\<close>

definition textual :: "dataset \<Rightarrow> string \<Rightarrow> bool" where
  "textual df c = (col_dtype df c = StrT \<or> col_dtype df c = ObjectT)"

text \<open>The columns the eight aggregations read.\<close>

definition gold_columns :: "string list" where
  "gold_columns = [''id'', ''brewery_type'', ''state_province'', ''country'', ''city'',
                   ''website_url'', ''phone'', ''address_1'']"

text \<open>
  The two parts of what an aggregation leaves behind: the caller's frame after the call,
  and the records of the table returned; \<open>None\<close> when the aggregation raised.
\<close>

definition frame_of :: "agg_result \<Rightarrow> dataset option" where
  "frame_of x = (case x of Inl e \<Rightarrow> None | Inr (d, t) \<Rightarrow> Some d)"

definition table_of :: "agg_result \<Rightarrow> row list option" where
  "table_of x = (case x of Inl e \<Rightarrow> None | Inr (d, t) \<Rightarrow> Some (rows t))"

text \<open>
  The directory \<open>glob\<close> lists for a pattern \<open>pat\<close> under \<open>d\<close>; the partitions under
  a raw root and the path \<open>glob\<close> returns for one of them; the JSON files of a
  partition and the paths \<open>glob\<close> returns for them.
\<close>

definition glob_dirname :: "string \<Rightarrow> string \<Rightarrow> string" where
  "glob_dirname d pat = fst (os_path_split (os_path_join d pat))"

definition partition_names :: "file_system \<Rightarrow> string \<Rightarrow> string list" where
  "partition_names fs d = glob1 fs (glob_dirname d ''ingestion_date=*'') fnmatch_partition"

definition partition_path :: "string \<Rightarrow> string \<Rightarrow> string" where
  "partition_path d k = os_path_join (glob_dirname d ''ingestion_date=*'') k"

definition json_names :: "file_system \<Rightarrow> string \<Rightarrow> string list" where
  "json_names fs p = glob1 fs (glob_dirname p ''*.json'') fnmatch_json"

definition json_paths :: "file_system \<Rightarrow> string \<Rightarrow> string list" where
  "json_paths fs p = map (os_path_join (glob_dirname p ''*.json'')) (json_names fs p)"

section \<open>Example inputs\<close>

definition ex_env :: env where
  "ex_env =
     \<lparr>to_float = (\<lambda>s. if s = ''999'' then Some (Fin 999)
                       else if s = ''45.5'' then Some (Fin (91 / 2)) else None),
      str_of_num = (\<lambda>x. ''0''),
      utc_now = ''2024-01-01 00:00:00''\<rparr>"

definition dup_df :: dataset where
  "dup_df =
     \<lparr>columns = [(''id'', StrT), (''name'', StrT)],
      rows = [[(''id'', Str ''a''), (''name'', Str ''x'')],
              [(''id'', Str ''b''), (''name'', Str ''y'')],
              [(''id'', Str ''a''), (''name'', Str ''z'')]]\<rparr>"

definition geo_df :: dataset where
  "geo_df =
     \<lparr>columns = [(''id'', StrT), (''latitude'', StrT), (''longitude'', ObjectT)],
      rows = [[(''id'', Str ''1''), (''latitude'', Str ''999''), (''longitude'', Str ''east'')],
              [(''id'', Str ''2''), (''latitude'', Str ''45.5''), (''longitude'', Num (Fin (- 120)))]]\<rparr>"

definition type_df :: dataset where
  "type_df =
     \<lparr>columns = [(''brewery_type'', StrT)],
      rows = [[(''brewery_type'', Null)], [(''brewery_type'', Str ''micro'')]]\<rparr>"


definition ex_fs :: file_system where
  "ex_fs =
     \<lparr>listdir = (\<lambda>p. if p = ''b'' then [''ingestion_date=2024-01-02'', ''readme'',
                                            ''ingestion_date=2024-01-10'']
                       else if p = ''b/ingestion_date=2024-01-02'' then [''w.json'']
                       else if p = ''b/ingestion_date=2024-01-10''
                       then [''x.json'', ''.h.json'', ''y.csv'', ''z.json''] else []),
      glob_dirs = (\<lambda>p. []),
      open_json = (\<lambda>f. if f = ''b/ingestion_date=2024-01-10/x.json''
                         then Inr [[(''id'', Str ''1'')]]
                         else if f = ''b/ingestion_date=2024-01-10/z.json''
                         then Inr [[(''id'', Str ''2''), (''name'', Str ''n'')]]
                         else if f = ''b/ingestion_date=2024-01-02/w.json''
                         then Inr [[(''id'', Str ''0'')]]
                         else Inl FileNotFoundError)\<rparr>"

text \<open>
  A raw root whose path has a bracket. It holds one partition with one readable file; no
  directory is called \<open>proj v/bronze\<close> or \<open>proj 2/bronze\<close>, which are the paths the
  pattern \<open>proj [v2]/bronze\<close> matches.
\<close>

definition bracket_fs :: file_system where
  "bracket_fs =
     \<lparr>listdir = (\<lambda>p. if p = ''proj [v2]/bronze'' then [''ingestion_date=2024-01-01'']
                       else if p = ''proj [v2]/bronze/ingestion_date=2024-01-01''
                       then [''x.json''] else []),
      glob_dirs = (\<lambda>p. []),
      open_json = (\<lambda>f. if f = ''proj [v2]/bronze/ingestion_date=2024-01-01/x.json''
                         then Inr [[(''id'', Str ''1'')]] else Inl FileNotFoundError)\<rparr>"

text \<open>
  A partition with a readable file and an entry \<open>y.json\<close> that is a dangling symbolic
  link, on which \<open>open\<close> raises \<open>FileNotFoundError\<close>.
\<close>

definition dangling_fs :: file_system where
  "dangling_fs =
     \<lparr>listdir = (\<lambda>p. if p = ''b'' then [''ingestion_date=2024-01-01'']
                       else if p = ''b/ingestion_date=2024-01-01''
                       then [''x.json'', ''y.json''] else []),
      glob_dirs = (\<lambda>p. []),
      open_json = (\<lambda>f. if f = ''b/ingestion_date=2024-01-01/x.json''
                         then Inr [[(''id'', Str ''1'')]] else Inl FileNotFoundError)\<rparr>"

text \<open>
  A raw root with two partitions, the later of which has a question mark in its name. The
  pattern \<open>b/ingestion_date=2024-01-0?\<close> matches the paths of both.
\<close>

definition question_fs :: file_system where
  "question_fs =
     \<lparr>listdir = (\<lambda>p. if p = ''b'' then [''ingestion_date=2024-01-01'', ''ingestion_date=2024-01-0?'']
                       else if p = ''b/ingestion_date=2024-01-01'' then [''x.json'']
                       else if p = ''b/ingestion_date=2024-01-0?'' then [''y.json''] else []),
      glob_dirs = (\<lambda>p. if p = ''b/ingestion_date=2024-01-0?''
                         then [''b/ingestion_date=2024-01-01'', ''b/ingestion_date=2024-01-0?'']
                         else []),
      open_json = (\<lambda>f. if f = ''b/ingestion_date=2024-01-01/x.json''
                         then Inr [[(''id'', Str ''old'')]]
                         else if f = ''b/ingestion_date=2024-01-0?/y.json''
                         then Inr [[(''id'', Str ''new'')]]
                         else Inl FileNotFoundError)\<rparr>"

definition gold_df :: dataset where
  "gold_df =
     \<lparr>columns = [(''id'', StrT), (''brewery_type'', StrT), (''state_province'', StrT),
                 (''country'', StrT), (''city'', StrT), (''website_url'', StrT),
                 (''phone'', StrT), (''address_1'', StrT)],
      rows = [[(''id'', Str ''1''), (''brewery_type'', Str ''micro''), (''state_province'', Str ''CA''),
               (''country'', Str ''US''), (''city'', Str ''LA''), (''website_url'', Str ''w''),
               (''phone'', Str ''5''), (''address_1'', Str ''a'')],
              [(''id'', Str ''2''), (''brewery_type'', Str ''nano''), (''state_province'', Null),
               (''country'', Str ''US''), (''city'', Str ''SF''), (''website_url'', Null),
               (''phone'', Str ''6''), (''address_1'', Null)]]\<rparr>"

section \<open>Properties of the quality gate\<close>

text \<open>
  C9. \<open>run_suite\<close> returns True exactly when every result passed; it raises exactly
  when \<open>raise_on_failure\<close> is set and some result failed; without the flag it never
  raises and returns the conjunction of the verdicts.
\<close>

theorem run_suite_verdict:
  "(snd (run_suite checks raise_on_failure) = Inr True \<longleftrightarrow> list_all passed checks) \<and>
   ((\<exists>e. snd (run_suite checks raise_on_failure) = Inl e) \<longleftrightarrow>
      raise_on_failure \<and> list_ex (\<lambda>c. \<not> passed c) checks) \<and>
   snd (run_suite checks False) = Inr (list_all passed checks)"
  by (auto simp: run_suite_def Let_def list_all_iff list_ex_iff)

theorem run_suite_verdict_witness:
  "snd (run_suite [check_volume type_df 5 None] True) = Inl ValueError \<and>
   snd (run_suite [check_volume type_df 5 None] False) = Inr False \<and>
   snd (run_suite [check_volume type_df 1 None] True) = Inr True"
  using run_suite_verdict [of "[check_volume type_df 5 None]" True]
        run_suite_verdict [of "[check_volume type_df 1 None]" True]
  by (simp add: run_suite_def check_volume_def type_df_def len_def Let_def)

lemma dropna_idem: "dropna (dropna vs) = dropna vs"
  by (simp add: dropna_def)

text \<open>
  C10. \<open>check_allowed_values\<close> gives the same result whether \<open>null_ok\<close> is set or not,
  and on a column that exists it passes exactly when every value is null or among the
  allowed ones: a null is never counted as an offending value.
\<close>

theorem check_allowed_values_ignores_nulls:
  "check_allowed_values df column allowed False = check_allowed_values df column allowed True \<and>
   (has_col df column \<longrightarrow>
      passed (check_allowed_values df column allowed null_ok) =
        (\<forall>v \<in> set (col df column). v = Null \<or> isin allowed v)) \<and>
   (has_col df column \<longrightarrow> (\<forall>v \<in> set (col df column). v = Null \<or> v \<in> allowed) \<longrightarrow>
      passed (check_allowed_values df column allowed null_ok))"
  by (auto simp: check_allowed_values_def Let_def dropna_def notnull_def filter_empty_conv isin_def)

theorem check_allowed_values_ignores_nulls_witness:
  "has_col type_df ''brewery_type'' \<and>
   col type_df ''brewery_type'' = [Null, Str ''micro''] \<and>
   passed (check_allowed_values type_df ''brewery_type'' {Str ''micro''} False)"
proof -
  have h: "has_col type_df ''brewery_type''"
    by (simp add: type_df_def has_col_def col_names_def)
  have a: "\<forall>v \<in> set (col type_df ''brewery_type''). v = Null \<or> v \<in> {Str ''micro''}"
    by (simp add: type_df_def col_def get_def)
  have c: "col type_df ''brewery_type'' = [Null, Str ''micro'']"
    by (simp add: type_df_def col_def get_def)
  from check_allowed_values_ignores_nulls [of type_df "''brewery_type''" "{Str ''micro''}" False] h a c
  show ?thesis by blast
qed

section \<open>Properties of the Silver transforms\<close>

lemma keep_last_keys: "set (map (id_key c) (keep_last c rs)) = set (map (id_key c) rs)"
  by (induction rs) (auto simp: id_key_def)

lemma keep_last_distinct: "distinct (map (id_key c) (keep_last c rs))"
proof (induction rs)
  case Nil
  then show ?case by simp
next
  case (Cons r rs)
  have "id_key c r \<notin> set (map (id_key c) rs) \<Longrightarrow> id_key c r \<notin> set (map (id_key c) (keep_last c rs))"
    using keep_last_keys[of c rs] by simp
  with Cons show ?case by (auto simp: id_key_def)
qed

lemma keep_last_length: "length (keep_last c rs) \<le> length rs"
  by (induction rs) auto

lemma keep_last_filter:
  "filter (\<lambda>r. id_key c r = v) (keep_last c rs) =
     (if v \<in> set (map (id_key c) rs) then [last (filter (\<lambda>r. id_key c r = v) rs)] else [])"
proof (induction rs)
  case Nil
  then show ?case by simp
next
  case (Cons r rs)
  show ?case
  proof (cases "id_key c r \<in> set (map (id_key c) rs)")
    case later: True
    then have kl: "keep_last c (r # rs) = keep_last c rs" by (simp add: id_key_def)
    show ?thesis
    proof (cases "id_key c r = v")
      case True
      with later have "filter (\<lambda>r. id_key c r = v) rs \<noteq> []"
        by (auto simp: filter_empty_conv)
      with True Cons kl later show ?thesis by auto
    next
      case False
      with Cons kl show ?thesis by auto
    qed
  next
    case nolater: False
    then have kl: "keep_last c (r # rs) = r # keep_last c rs" by (simp add: id_key_def)
    show ?thesis
    proof (cases "id_key c r = v")
      case True
      with nolater have "filter (\<lambda>r. id_key c r = v) rs = []"
        by (auto simp: filter_empty_conv image_iff)
      with True nolater Cons kl show ?thesis by auto
    next
      case False
      with Cons kl show ?thesis by auto
    qed
  qed
qed

lemma py_key_distinct: "distinct (map (\<lambda>r. py_key (f r)) rs) \<Longrightarrow> distinct (map f rs)"
  by (simp add: distinct_map inj_on_def)

text \<open>
  C3. On a Dataset with an \<open>id\<close> column \<open>deduplicate\<close> does not fail; it logs the number
  of records it removed; no two records of the result have the same \<open>id\<close>; and for every
  record of the input, the one record of the result with its \<open>id\<close> is the last record of
  the input with that \<open>id\<close>.
\<close>

theorem deduplicate_keeps_last:
  assumes "has_col df ''id''"
  shows "\<exists>df'. deduplicate df = Inr (df', [Deduplicated (int (len df) - int (len df')) (len df')]) \<and>
           columns df' = columns df \<and>
           len df' \<le> len df \<and>
           distinct (map (\<lambda>r. get r ''id'') (rows df')) \<and>
           (\<forall>r \<in> set (rows df).
              filter (\<lambda>s. id_key ''id'' s = id_key ''id'' r) (rows df') =
                [last (filter (\<lambda>s. id_key ''id'' s = id_key ''id'' r) (rows df))])"
proof -
  from assms have ne: "columns df \<noteq> []" by (auto simp: has_col_def col_names_def)
  have dd: "drop_duplicates_last ''id'' df = Inr (df\<lparr>rows := keep_last ''id'' (rows df)\<rparr>)"
    using assms ne by (cases "rows df = []") (auto simp: drop_duplicates_last_def empty_def)
  have d: "distinct (map (\<lambda>r. get r ''id'') (keep_last ''id'' (rows df)))"
    using keep_last_distinct[of "''id''" "rows df"]
    unfolding id_key_def by (rule py_key_distinct)
  show ?thesis
    using dd d keep_last_length[of "''id''" "rows df"]
    by (simp add: deduplicate_def Let_def len_def keep_last_filter)
qed

theorem deduplicate_keeps_last_witness:
  "has_col dup_df ''id'' \<and>
   deduplicate dup_df =
     Inr (\<lparr>columns = [(''id'', StrT), (''name'', StrT)],
           rows = [[(''id'', Str ''b''), (''name'', Str ''y'')],
                   [(''id'', Str ''a''), (''name'', Str ''z'')]]\<rparr>,
          [Deduplicated 1 2])"
proof -
  have h: "has_col dup_df ''id''"
    by (simp add: dup_df_def has_col_def col_names_def)
  from deduplicate_keeps_last [OF h] obtain df' where
    "deduplicate dup_df = Inr (df', [Deduplicated (int (len dup_df) - int (len df')) (len df')])"
    by blast
  moreover have "deduplicate dup_df =
     Inr (\<lparr>columns = [(''id'', StrT), (''name'', StrT)],
           rows = [[(''id'', Str ''b''), (''name'', Str ''y'')],
                   [(''id'', Str ''a''), (''name'', Str ''z'')]]\<rparr>,
          [Deduplicated 1 2])"
    by (simp add: deduplicate_def drop_duplicates_last_def dup_df_def empty_def has_col_def
        col_names_def len_def get_def Let_def)
  ultimately show ?thesis using h by simp
qed

lemma get_put: "get (put c v r) c' = (if c' = c then v else get r c')"
  by (simp add: get_def put_def update_conv')

lemma zip_map_same: "zip xs (map f xs) = map (\<lambda>x. (x, f x)) xs"
  by (induction xs) auto

lemma map2_same: "map2 h (map f xs) (map g xs) = map (\<lambda>x. h (f x) (g x)) xs"
  by (induction xs) auto

lemma set_col_map:
  "set_col c t (map f (col df c)) df =
     \<lparr>columns = AList.update c t (columns df), rows = map (\<lambda>r. put c (f (get r c)) r) (rows df)\<rparr>"
  by (simp add: set_col_def col_def zip_map_same comp_def)

lemma validate_column_rows:
  "rows (fst (validate_column E c lo hi df)) = map (validate_row E c lo hi) (rows df)"
  unfolding validate_column_def Let_def set_col_map
  by (simp add: loc_set_null_def col_def map2_same validate_row_def Let_def)

lemma validate_column_has_col:
  "has_col (fst (validate_column E c lo hi df)) c' = (c' = c \<or> has_col df c')"
  by (auto simp: validate_column_def Let_def loc_set_null_def has_col_def col_names_def
      set_col_def update_keys)

lemma get_validate_row:
  "get (validate_row E c lo hi r) c' =
     (if c' = c then (if between lo hi (to_numeric E (get r c)) then to_numeric E (get r c) else Null)
      else get r c')"
  by (simp add: validate_row_def Let_def get_put)

lemma between_to_numeric:
  "between lo hi (to_numeric E v) \<Longrightarrow> \<exists>q. to_numeric E v = Num (Fin q) \<and> lo \<le> q \<and> q \<le> hi"
proof -
  have x: "\<And>x. xnum_le (Fin lo) x \<Longrightarrow> xnum_le x (Fin hi) \<Longrightarrow> \<exists>q. x = Fin q \<and> lo \<le> q \<and> q \<le> hi"
    subgoal for x by (cases x) (auto simp: xnum_le_def)
    done
  assume "between lo hi (to_numeric E v)"
  then show ?thesis
    by (cases v) (auto simp: between_def to_numeric_def dest: x split: option.splits if_splits)
qed

text \<open>
  C4. \<open>validate_coordinates\<close> returns a Dataset with as many records as it was given.
  Where the column exists, every \<open>latitude\<close> of the result is null or a number in
  [-90, 90] and every \<open>longitude\<close> is null or a number in [-180, 180]; and a value that
  did not read as a number of the range (out of range, not numeric, or null) is null in
  the result.
\<close>

theorem validate_coordinates_range:
  "\<exists>df' logs. validate_coordinates E df = Inr (df', logs) \<and> len df' = len df \<and>
     (\<forall>i < len df.
        (has_col df ''latitude'' \<longrightarrow>
           (get (rows df' ! i) ''latitude'' = Null \<or>
            (\<exists>q. get (rows df' ! i) ''latitude'' = Num (Fin q) \<and> - 90 \<le> q \<and> q \<le> 90)) \<and>
           ((\<forall>q. to_numeric E (get (rows df ! i) ''latitude'') = Num (Fin q) \<longrightarrow> q < - 90 \<or> 90 < q)
              \<longrightarrow> get (rows df' ! i) ''latitude'' = Null)) \<and>
        (has_col df ''longitude'' \<longrightarrow>
           (get (rows df' ! i) ''longitude'' = Null \<or>
            (\<exists>q. get (rows df' ! i) ''longitude'' = Num (Fin q) \<and> - 180 \<le> q \<and> q \<le> 180)) \<and>
           ((\<forall>q. to_numeric E (get (rows df ! i) ''longitude'') = Num (Fin q) \<longrightarrow> q < - 180 \<or> 180 < q)
              \<longrightarrow> get (rows df' ! i) ''longitude'' = Null)))"
proof -
  define d1 where "d1 = (if has_col df ''longitude'' then fst (validate_column E ''longitude'' (- 180) 180 df) else df)"
  define d2 where "d2 = (if has_col d1 ''latitude'' then fst (validate_column E ''latitude'' (- 90) 90 d1) else d1)"
  have hl: "has_col d1 ''latitude'' = has_col df ''latitude''"
    by (simp add: d1_def validate_column_has_col)
  have r1: "rows d1 = (if has_col df ''longitude'' then map (validate_row E ''longitude'' (- 180) 180) (rows df) else rows df)"
    by (simp add: d1_def validate_column_rows)
  have r2: "rows d2 = (if has_col df ''latitude'' then map (validate_row E ''latitude'' (- 90) 90) (rows d1) else rows d1)"
    by (simp add: d2_def hl validate_column_rows)
  have ex: "\<exists>logs. validate_coordinates E df = Inr (d2, logs)"
    by (simp add: validate_coordinates_def d1_def d2_def Let_def split: prod.splits)
  have ln: "len d2 = len df" by (simp add: len_def r1 r2)
  have lat: "get (rows d2 ! i) ''latitude'' =
               (if between (- 90) 90 (to_numeric E (get (rows df ! i) ''latitude''))
                then to_numeric E (get (rows df ! i) ''latitude'') else Null)"
    if "i < len df" "has_col df ''latitude''" for i
    using that by (simp add: r1 r2 len_def get_validate_row)
  have lon: "get (rows d2 ! i) ''longitude'' =
               (if between (- 180) 180 (to_numeric E (get (rows df ! i) ''longitude''))
                then to_numeric E (get (rows df ! i) ''longitude'') else Null)"
    if "i < len df" "has_col df ''longitude''" for i
    using that by (simp add: r1 r2 len_def get_validate_row)
  have rng: "(if between lo hi w then w else Null) = Null \<or>
             (\<exists>q. (if between lo hi w then w else Null) = Num (Fin q) \<and> lo \<le> q \<and> q \<le> hi)"
    if "w = to_numeric E v" for lo hi w v
    using that between_to_numeric[of lo hi E v] by auto
  have out: "(\<forall>q. w = Num (Fin q) \<longrightarrow> q < lo \<or> hi < q) \<Longrightarrow> (if between lo hi w then w else Null) = Null"
    if "w = to_numeric E v" for lo hi w v
    using that between_to_numeric[of lo hi E v] by auto
  from ex obtain logs where "validate_coordinates E df = Inr (d2, logs)" by blast
  moreover have "\<forall>i < len df.
        (has_col df ''latitude'' \<longrightarrow>
           (get (rows d2 ! i) ''latitude'' = Null \<or>
            (\<exists>q. get (rows d2 ! i) ''latitude'' = Num (Fin q) \<and> - 90 \<le> q \<and> q \<le> 90)) \<and>
           ((\<forall>q. to_numeric E (get (rows df ! i) ''latitude'') = Num (Fin q) \<longrightarrow> q < - 90 \<or> 90 < q)
              \<longrightarrow> get (rows d2 ! i) ''latitude'' = Null)) \<and>
        (has_col df ''longitude'' \<longrightarrow>
           (get (rows d2 ! i) ''longitude'' = Null \<or>
            (\<exists>q. get (rows d2 ! i) ''longitude'' = Num (Fin q) \<and> - 180 \<le> q \<and> q \<le> 180)) \<and>
           ((\<forall>q. to_numeric E (get (rows df ! i) ''longitude'') = Num (Fin q) \<longrightarrow> q < - 180 \<or> 180 < q)
              \<longrightarrow> get (rows d2 ! i) ''longitude'' = Null))"
  proof (intro allI impI conjI)
    fix i assume i: "i < len df" and h: "has_col df ''latitude''"
    show "get (rows d2 ! i) ''latitude'' = Null \<or>
            (\<exists>q. get (rows d2 ! i) ''latitude'' = Num (Fin q) \<and> - 90 \<le> q \<and> q \<le> 90)"
      unfolding lat[OF i h] by (rule rng) simp
    assume "\<forall>q. to_numeric E (get (rows df ! i) ''latitude'') = Num (Fin q) \<longrightarrow> q < - 90 \<or> 90 < q"
    then show "get (rows d2 ! i) ''latitude'' = Null"
      unfolding lat[OF i h] by (intro out[OF refl])
  next
    fix i assume i: "i < len df" and h: "has_col df ''longitude''"
    show "get (rows d2 ! i) ''longitude'' = Null \<or>
            (\<exists>q. get (rows d2 ! i) ''longitude'' = Num (Fin q) \<and> - 180 \<le> q \<and> q \<le> 180)"
      unfolding lon[OF i h] by (rule rng) simp
    assume "\<forall>q. to_numeric E (get (rows df ! i) ''longitude'') = Num (Fin q) \<longrightarrow> q < - 180 \<or> 180 < q"
    then show "get (rows d2 ! i) ''longitude'' = Null"
      unfolding lon[OF i h] by (intro out[OF refl])
  qed
  ultimately show ?thesis using ln by blast
qed

theorem validate_coordinates_range_witness:
  "len geo_df = 2 \<and> has_col geo_df ''latitude'' \<and> has_col geo_df ''longitude'' \<and>
   (\<exists>df' logs. validate_coordinates ex_env geo_df = Inr (df', logs) \<and> len df' = 2 \<and>
      get (rows df' ! 0) ''latitude'' = Null \<and> get (rows df' ! 0) ''longitude'' = Null)"
proof -
  have l: "len geo_df = 2" by (simp add: geo_df_def len_def)
  have h1: "has_col geo_df ''latitude''" by (simp add: geo_df_def has_col_def col_names_def)
  have h2: "has_col geo_df ''longitude''" by (simp add: geo_df_def has_col_def col_names_def)
  have v1: "to_numeric ex_env (get (rows geo_df ! 0) ''latitude'') = Num (Fin 999)"
    by (simp add: geo_df_def get_def to_numeric_def ex_env_def)
  have v2: "to_numeric ex_env (get (rows geo_df ! 0) ''longitude'') = Null"
    by (simp add: geo_df_def get_def to_numeric_def ex_env_def)
  from validate_coordinates_range [of ex_env geo_df] obtain df' logs where
    r: "validate_coordinates ex_env geo_df = Inr (df', logs)" "len df' = len geo_df"
    and a: "\<forall>i < len geo_df.
        (has_col geo_df ''latitude'' \<longrightarrow>
           (get (rows df' ! i) ''latitude'' = Null \<or>
            (\<exists>q. get (rows df' ! i) ''latitude'' = Num (Fin q) \<and> - 90 \<le> q \<and> q \<le> 90)) \<and>
           ((\<forall>q. to_numeric ex_env (get (rows geo_df ! i) ''latitude'') = Num (Fin q) \<longrightarrow> q < - 90 \<or> 90 < q)
              \<longrightarrow> get (rows df' ! i) ''latitude'' = Null)) \<and>
        (has_col geo_df ''longitude'' \<longrightarrow>
           (get (rows df' ! i) ''longitude'' = Null \<or>
            (\<exists>q. get (rows df' ! i) ''longitude'' = Num (Fin q) \<and> - 180 \<le> q \<and> q \<le> 180)) \<and>
           ((\<forall>q. to_numeric ex_env (get (rows geo_df ! i) ''longitude'') = Num (Fin q) \<longrightarrow> q < - 180 \<or> 180 < q)
              \<longrightarrow> get (rows df' ! i) ''longitude'' = Null))"
    by blast
  from a l h1 h2 have "get (rows df' ! 0) ''latitude'' = Null \<and> get (rows df' ! 0) ''longitude'' = Null"
    by (simp add: v1 v2)
  with r l h1 h2 show ?thesis by simp
qed










lemma col_dtype_set_col: "col_dtype (set_col c t vs df) c' = (if c' = c then t else col_dtype df c')"
  by (simp add: col_dtype_def set_col_def update_conv')

lemma col_dtype_rows_update: "col_dtype (df\<lparr>rows := rs\<rparr>) c = col_dtype df c"
  by (simp add: col_dtype_def)

lemma rows_set_col_empty: "rows df = [] \<Longrightarrow> rows (set_col c t vs df) = []"
  by (simp add: set_col_def)

lemma col_empty: "rows df = [] \<Longrightarrow> col df c = []"
  by (simp add: col_def)

lemma dedup_empty: "rows df = [] \<Longrightarrow> deduplicate df = Inr (df, [Deduplicated 0 0])"
  by (simp add: deduplicate_def drop_duplicates_last_def empty_def len_def)

lemma clean_empty:
  "select_dtypes_str df = [] \<Longrightarrow> clean_strings df = Inr (df, [StringsCleaned])"
  by (simp add: clean_strings_def)

lemma phone_empty:
  assumes "rows df = []"
  shows "\<exists>d l. normalize_phone E df = Inr (d, l) \<and> rows d = [] \<and>
           (\<forall>c. c \<noteq> ''phone'' \<longrightarrow> col_dtype d c = col_dtype df c)"
  using assms
  by (simp add: normalize_phone_def Let_def col_empty rows_set_col_empty col_dtype_set_col)

lemma str_method_empty:
  assumes "rows df = []" "textual df c"
  shows "\<exists>d. str_method c f df = Inr d \<and> rows d = [] \<and> (\<forall>c'. col_dtype d c' = col_dtype df c')"
  using assms
  by (auto simp: str_method_def textual_def col_empty rows_set_col_empty col_dtype_set_col
      str_ok_def dropna_def)

lemma postal_empty:
  assumes "rows df = []" "textual df ''postal_code''"
  shows "\<exists>d l. normalize_postal_code df = Inr (d, l) \<and> rows d = [] \<and>
           (\<forall>c. col_dtype d c = col_dtype df c)"
proof (cases "has_col df ''postal_code''")
  case False
  with assms show ?thesis by (simp add: normalize_postal_code_def)
next
  case True
  from str_method_empty[OF assms, of strip] obtain d1 where
    d1: "str_method ''postal_code'' strip df = Inr d1" "rows d1 = []" "\<forall>c'. col_dtype d1 c' = col_dtype df c'"
    by blast
  then have "textual d1 ''postal_code''" using assms(2) by (simp add: textual_def)
  from str_method_empty[OF d1(2) this, of upper] obtain d2 where
    d2: "str_method ''postal_code'' upper d1 = Inr d2" "rows d2 = []" "\<forall>c'. col_dtype d2 c' = col_dtype d1 c'"
    by blast
  with d1 True show ?thesis by (simp add: normalize_postal_code_def)
qed

lemma validate_column_empty:
  "rows df = [] \<Longrightarrow> rows (fst (validate_column E c lo hi df)) = [] \<and>
     (\<forall>c'. c' \<noteq> c \<longrightarrow> col_dtype (fst (validate_column E c lo hi df)) c' = col_dtype df c')"
  by (simp add: validate_column_def Let_def loc_set_null_def col_empty rows_set_col_empty col_dtype_set_col
      col_dtype_rows_update)

lemma coords_empty:
  assumes "rows df = []"
  shows "\<exists>d l. validate_coordinates E df = Inr (d, l) \<and> rows d = [] \<and>
           (\<forall>c. c \<noteq> ''longitude'' \<and> c \<noteq> ''latitude'' \<longrightarrow> col_dtype d c = col_dtype df c)"
proof -
  define d1 where "d1 = (if has_col df ''longitude'' then fst (validate_column E ''longitude'' (- 180) 180 df) else df)"
  define d2 where "d2 = (if has_col d1 ''latitude'' then fst (validate_column E ''latitude'' (- 90) 90 d1) else d1)"
  have a: "rows d1 = [] \<and> (\<forall>c. c \<noteq> ''longitude'' \<longrightarrow> col_dtype d1 c = col_dtype df c)"
    using assms validate_column_empty[of df E "''longitude''"] by (simp add: d1_def)
  then have b: "rows d2 = [] \<and> (\<forall>c. c \<noteq> ''latitude'' \<longrightarrow> col_dtype d2 c = col_dtype d1 c)"
    using validate_column_empty[of d1 E "''latitude''"] by (simp add: d2_def)
  have "\<exists>l. validate_coordinates E df = Inr (d2, l)"
    by (simp add: validate_coordinates_def d1_def d2_def Let_def split: prod.splits)
  with a b show ?thesis by auto
qed

lemma type_empty:
  assumes "rows df = []" "textual df ''brewery_type''"
  shows "\<exists>d l. standardize_brewery_type df = Inr (d, l) \<and> rows d = []"
proof (cases "has_col df ''brewery_type''")
  case False
  with assms show ?thesis by (simp add: standardize_brewery_type_def)
next
  case True
  from str_method_empty[OF assms, of lower] obtain d1 where
    d1: "str_method ''brewery_type'' lower df = Inr d1" "rows d1 = []" "\<forall>c'. col_dtype d1 c' = col_dtype df c'"
    by blast
  then have "textual d1 ''brewery_type''" using assms(2) by (simp add: textual_def)
  from str_method_empty[OF d1(2) this, of strip] obtain d2 where
    d2: "str_method ''brewery_type'' strip d1 = Inr d2" "rows d2 = []" "\<forall>c'. col_dtype d2 c' = col_dtype d1 c'"
    by blast
  with d1 True show ?thesis
    by (simp add: standardize_brewery_type_def Let_def rows_set_col_empty)
qed

lemma drop_empty:
  "rows df = [] \<Longrightarrow> \<exists>d l. drop_redundant_columns df = Inr (d, l) \<and> rows d = []"
  by (simp add: drop_redundant_columns_def drop_columns_def Let_def)

lemma meta_empty:
  "rows df = [] \<Longrightarrow> \<exists>d l. add_metadata E df = Inr (d, l) \<and> rows d = []"
  by (simp add: add_metadata_def rows_set_col_empty)

lemma transform_empty:
  assumes r: "rows df = []" and s: "select_dtypes_str df = []"
    and p: "textual df ''postal_code''" and b: "textual df ''brewery_type''"
  shows "\<exists>d l. transform E df = Inr (d, l) \<and> rows d = []"
proof -
  from phone_empty[OF r, of E] obtain d3 l3 where
    d3: "normalize_phone E df = Inr (d3, l3)" "rows d3 = []"
      "\<forall>c. c \<noteq> ''phone'' \<longrightarrow> col_dtype d3 c = col_dtype df c" by blast
  have "textual d3 ''postal_code''" using p d3(3) by (simp add: textual_def)
  from postal_empty[OF d3(2) this] obtain d4 l4 where
    d4: "normalize_postal_code d3 = Inr (d4, l4)" "rows d4 = []"
      "\<forall>c. col_dtype d4 c = col_dtype d3 c" by blast
  from coords_empty[OF d4(2), of E] obtain d5 l5 where
    d5: "validate_coordinates E d4 = Inr (d5, l5)" "rows d5 = []"
      "\<forall>c. c \<noteq> ''longitude'' \<and> c \<noteq> ''latitude'' \<longrightarrow> col_dtype d5 c = col_dtype d4 c" by blast
  have "textual d5 ''brewery_type''" using b d3(3) d4(3) d5(3) by (simp add: textual_def)
  from type_empty[OF d5(2) this] obtain d6 l6 where
    d6: "standardize_brewery_type d5 = Inr (d6, l6)" "rows d6 = []" by blast
  from drop_empty[OF d6(2)] obtain d7 l7 where
    d7: "drop_redundant_columns d6 = Inr (d7, l7)" "rows d7 = []" by blast
  from meta_empty[OF d7(2), of E] obtain d8 l8 where
    d8: "add_metadata E d7 = Inr (d8, l8)" "rows d8 = []" by blast
  show ?thesis
    by (simp add: transform_def and_then_def dedup_empty[OF r] clean_empty[OF s] d3 d4 d5 d6 d7 d8)
qed

lemma empty_frame_facts:
  "rows (empty_frame cs) = []" "select_dtypes_str (empty_frame cs) = []"
  "textual (empty_frame cs) c"
proof -
  show "rows (empty_frame cs) = []" by (simp add: empty_frame_def)
  show "select_dtypes_str (empty_frame cs) = []"
    by (simp add: empty_frame_def select_dtypes_str_def filter_empty_conv)
  have "map_of (map (\<lambda>c. (c, ObjectT)) cs) c = None \<or> map_of (map (\<lambda>c. (c, ObjectT)) cs) c = Some ObjectT"
    by (induction cs) auto
  then show "textual (empty_frame cs) c"
    by (auto simp: textual_def col_dtype_def empty_frame_def)
qed

lemma DataFrame_Nil: "DataFrame [] = empty_frame []"
  by (simp add: DataFrame_def empty_frame_def first_seen_def)

text \<open>
  C6. On the Dataset without a record, whatever its columns, each of the eight transforms
  returns without raising, and so does their composition \<open>transform\<close>, whose result has
  no record either.
\<close>

theorem transforms_tolerate_empty:
  "(\<exists>d l. deduplicate (empty_frame cs) = Inr (d, l)) \<and>
   (\<exists>d l. clean_strings (empty_frame cs) = Inr (d, l)) \<and>
   (\<exists>d l. normalize_phone E (empty_frame cs) = Inr (d, l)) \<and>
   (\<exists>d l. normalize_postal_code (empty_frame cs) = Inr (d, l)) \<and>
   (\<exists>d l. validate_coordinates E (empty_frame cs) = Inr (d, l)) \<and>
   (\<exists>d l. standardize_brewery_type (empty_frame cs) = Inr (d, l)) \<and>
   (\<exists>d l. drop_redundant_columns (empty_frame cs) = Inr (d, l)) \<and>
   (\<exists>d l. add_metadata E (empty_frame cs) = Inr (d, l)) \<and>
   (\<exists>d l. transform E (empty_frame cs) = Inr (d, l) \<and> rows d = [])"
proof (intro conjI)
  show "\<exists>d l. deduplicate (empty_frame cs) = Inr (d, l)"
    using dedup_empty[OF empty_frame_facts(1)] by blast
  show "\<exists>d l. clean_strings (empty_frame cs) = Inr (d, l)"
    using clean_empty[OF empty_frame_facts(2)] by blast
  show "\<exists>d l. normalize_phone E (empty_frame cs) = Inr (d, l)"
    using phone_empty[OF empty_frame_facts(1)] by blast
  show "\<exists>d l. normalize_postal_code (empty_frame cs) = Inr (d, l)"
    using postal_empty[OF empty_frame_facts(1) empty_frame_facts(3)] by blast
  show "\<exists>d l. validate_coordinates E (empty_frame cs) = Inr (d, l)"
    using coords_empty[OF empty_frame_facts(1)] by blast
  show "\<exists>d l. standardize_brewery_type (empty_frame cs) = Inr (d, l)"
    using type_empty[OF empty_frame_facts(1) empty_frame_facts(3)] by blast
  show "\<exists>d l. drop_redundant_columns (empty_frame cs) = Inr (d, l)"
    using drop_empty[OF empty_frame_facts(1)] by blast
  show "\<exists>d l. add_metadata E (empty_frame cs) = Inr (d, l)"
    using meta_empty[OF empty_frame_facts(1)] by blast
  show "\<exists>d l. transform E (empty_frame cs) = Inr (d, l) \<and> rows d = []"
    by (rule transform_empty[OF empty_frame_facts(1) empty_frame_facts(2)
          empty_frame_facts(3) empty_frame_facts(3)])
qed

theorem transforms_tolerate_empty_witness:
  "\<exists>d l. transform ex_env (DataFrame []) = Inr (d, l) \<and> rows d = []"
  using transforms_tolerate_empty [of "[]" ex_env] by (simp add: DataFrame_Nil)



lemma has_magic_iff: "has_magic s = (\<exists>c \<in> set s. c = CHR ''*'' \<or> c = CHR ''?'' \<or> c = CHR ''['')"
  by (simp add: has_magic_def list_ex_iff)

lemma os_path_join_relative:
  assumes "b = [] \<or> hd b \<noteq> CHR ''/''"
  shows "os_path_join a b = (if a = [] \<or> last a = CHR ''/'' then a else a @ ''/'') @ b"
  using assms by (auto simp: os_path_join_def)

lemma no_magic_join:
  "\<not> has_magic a \<Longrightarrow> \<not> has_magic b \<Longrightarrow> \<not> has_magic (os_path_join a b)"
  by (auto simp: has_magic_iff os_path_join_def)

lemma set_split_head: "set (fst (os_path_split p)) \<subseteq> set p"
proof -
  have a: "set (rev (dropWhile P (rev p))) \<subseteq> set p" for P
    using set_dropWhileD[of _ P "rev p"] by auto
  have b: "set (rev (dropWhile Q (rev (rev (dropWhile P (rev p)))))) \<subseteq> set p" for P Q
    using set_dropWhileD[of _ Q "dropWhile P (rev p)"] set_dropWhileD[of _ P "rev p"] by auto
  show ?thesis unfolding os_path_split_def Let_def using a b by (simp del: set_rev rev_rev_ident)
qed

lemma split_head_pattern:
  assumes "CHR ''/'' \<notin> set pat" and "x = [] \<or> last x = CHR ''/''"
  shows "set (fst (os_path_split (x @ pat))) \<subseteq> set x"
proof -
  have "dropWhile (\<lambda>c. c \<noteq> CHR ''/'') (rev pat @ rev x) = dropWhile (\<lambda>c. c \<noteq> CHR ''/'') (rev x)"
    using assms(1) by (intro dropWhile_append2) auto
  then have h: "rev (dropWhile (\<lambda>c. c \<noteq> CHR ''/'') (rev (x @ pat))) =
                rev (dropWhile (\<lambda>c. c \<noteq> CHR ''/'') (rev x))" by simp
  have s1: "set (rev (dropWhile (\<lambda>c. c \<noteq> CHR ''/'') (rev x))) \<subseteq> set x"
    using set_dropWhileD[of _ "\<lambda>c. c \<noteq> CHR ''/''" "rev x"] by auto
  have s2: "set (rev (dropWhile Q (rev ys))) \<subseteq> set ys" for Q and ys :: string
    using set_dropWhileD[of _ Q "rev ys"] by auto
  show ?thesis
    unfolding os_path_split_def Let_def h fst_conv
    using s1 s2[of "\<lambda>c. c = CHR ''/''" "rev (dropWhile (\<lambda>c. c \<noteq> CHR ''/'') (rev x))"]
    by (auto split: if_splits)
qed

lemma glob_dirname_chars:
  assumes "CHR ''/'' \<notin> set pat"
  shows "set (glob_dirname a pat) \<subseteq> set a \<union> {CHR ''/''}"
proof -
  let ?x = "(if a = [] \<or> last a = CHR ''/'' then a else a @ ''/'')"
  have rel: "pat = [] \<or> hd pat \<noteq> CHR ''/''" using assms by (cases pat) auto
  have j: "os_path_join a pat = ?x @ pat" by (rule os_path_join_relative[OF rel])
  have x: "?x = [] \<or> last ?x = CHR ''/''" by auto
  from split_head_pattern[OF assms x] have "set (glob_dirname a pat) \<subseteq> set ?x"
    by (simp only: glob_dirname_def j)
  then show ?thesis by (auto split: if_splits)
qed

lemma no_magic_glob_dirname:
  "CHR ''/'' \<notin> set pat \<Longrightarrow> \<not> has_magic a \<Longrightarrow> \<not> has_magic (glob_dirname a pat)"
  using glob_dirname_chars[of pat a] by (auto simp: has_magic_iff)

lemma os_path_join_Nil: "os_path_join [] = (\<lambda>n. n)"
  by (rule ext) (simp add: os_path_join_def)

lemma glob_literal:
  assumes "\<not> has_magic (glob_dirname a pat)"
  shows "glob fs (os_path_join a pat) m =
           map (os_path_join (glob_dirname a pat)) (glob1 fs (glob_dirname a pat) m)"
  using assms
  by (simp add: glob_def glob_dirname_def Let_def os_path_join_Nil)


lemma partition_name_prefix:
  assumes "fnmatch_partition n"
  shows "n = ''ingestion_date='' @ drop 15 n"
proof -
  from assms have t: "take (length ''ingestion_date='') n = ''ingestion_date=''"
    by (simp add: fnmatch_partition_def starts_with_def)
  have l: "length ''ingestion_date='' = 15" by simp
  have "n = take 15 n @ drop 15 n" by simp
  with t show ?thesis unfolding l by simp
qed

lemma partition_name_relative:
  assumes "fnmatch_partition n"
  shows "n = [] \<or> hd n \<noteq> CHR ''/''"
proof -
  from partition_name_prefix[OF assms] obtain r where "n = CHR ''i'' # r"
    by (metis append_Cons)
  then show ?thesis by simp
qed


lemma append_le_append: "(p @ a \<le> p @ (b :: string)) = (a \<le> b)"
  by (induction p) auto

lemma sorted_le_last: "sorted ys \<Longrightarrow> y \<in> set ys \<Longrightarrow> y \<le> last (ys :: string list)"
  by (induction ys) auto

lemma last_sort_Max:
  assumes "xs \<noteq> []"
  shows "last (sort xs) = Max (set (xs :: string list))"
proof -
  have ne: "sort xs \<noteq> []" using assms by (metis length_sort length_0_conv)
  have "Max (set xs) = last (sort xs)"
  proof (rule Max_eqI)
    show "finite (set xs)" by simp
    show "y \<le> last (sort xs)" if "y \<in> set xs" for y
      using that sorted_le_last[of "sort xs" y] by simp
    show "last (sort xs) \<in> set xs" using last_in_set[OF ne] by simp
  qed
  then show ?thesis by simp
qed

lemma last_sort_prefixed:
  assumes "names \<noteq> []"
  shows "last (sort (map (\<lambda>n. p @ n) names)) = p @ Max (set (names :: string list))"
proof -
  have m: "mono (\<lambda>n. p @ (n :: string))" by (simp add: mono_def append_le_append)
  have "last (sort (map (\<lambda>n. p @ n) names)) = Max ((\<lambda>n. p @ n) ` set names)"
    using assms by (simp add: last_sort_Max)
  also have "\<dots> = p @ Max (set names)"
    using assms by (simp add: mono_Max_commute[OF m])
  finally show ?thesis .
qed

lemma partition_names_match: "n \<in> set (partition_names fs d) \<Longrightarrow> fnmatch_partition n"
  by (simp add: partition_names_def glob1_def)

lemma join_partition_names:
  "map (os_path_join D) (partition_names fs d) =
     map (\<lambda>n. (if D = [] \<or> last D = CHR ''/'' then D else D @ ''/'') @ n) (partition_names fs d)"
  by (rule map_cong[OF refl])
     (use partition_names_match partition_name_relative os_path_join_relative in blast)

lemma latest_partition:
  assumes "partition_names fs d \<noteq> []"
  shows "last (sort (map (os_path_join D) (partition_names fs d))) =
           os_path_join D (Max (set (partition_names fs d)))"
proof -
  let ?p = "(if D = [] \<or> last D = CHR ''/'' then D else D @ ''/'')"
  have "Max (set (partition_names fs d)) \<in> set (partition_names fs d)" using assms by simp
  then have "os_path_join D (Max (set (partition_names fs d))) = ?p @ Max (set (partition_names fs d))"
    using partition_names_match partition_name_relative os_path_join_relative by blast
  then show ?thesis
    unfolding join_partition_names using last_sort_prefixed[OF assms, of ?p] by simp
qed

lemma date_key_le:
  assumes "fnmatch_partition n" "fnmatch_partition k"
  shows "(n \<le> k) = (drop 15 n \<le> drop 15 k)"
  using partition_name_prefix[OF assms(1)] partition_name_prefix[OF assms(2)]
  by (metis append_le_append)

lemma read_all_Inr:
  "\<forall>f \<in> set files. \<exists>rs. open_json fs f = Inr rs \<Longrightarrow>
   read_all fs files = Inr (concat (map (\<lambda>f. projr (open_json fs f)) files))"
  by (induction files) auto

lemma read_all_Inl: "read_all fs files = Inl e \<Longrightarrow> \<exists>f \<in> set files. open_json fs f = Inl e"
  by (induction files) (auto split: sum.splits)

lemma read_all_fails:
  "f \<in> set files \<Longrightarrow> open_json fs f = Inl e \<Longrightarrow> \<exists>e'. read_all fs files = Inl e'"
proof (induction files)
  case Nil
  then show ?case by simp
next
  case (Cons a files)
  show ?case
  proof (cases "open_json fs a")
    case (Inl e0)
    then show ?thesis by simp
  next
    case (Inr rs)
    with Cons.prems have "f \<in> set files" by auto
    from Cons.IH[OF this Cons.prems(2)] obtain e' where "read_all fs files = Inl e'" by blast
    with Inr show ?thesis by simp
  qed
qed

lemma DataFrame_rows: "rows (DataFrame records) = records"
  by (simp add: DataFrame_def)

lemma DataFrame_col_names:
  "col_names (DataFrame records) = first_seen (concat (map (map fst) records))"
  by (simp add: DataFrame_def col_names_def comp_def)


lemma sort_map_ne: "names \<noteq> [] \<Longrightarrow> sort (map (f :: string \<Rightarrow> string) names) \<noteq> []"
  by (metis length_0_conv length_map length_sort)

lemma load_unfold:
  assumes "glob fs (os_path_join d ''ingestion_date=*'') fnmatch_partition = ps"
    and "sort ps \<noteq> []" and "last (sort ps) = p"
    and "glob fs (os_path_join p ''*.json'') fnmatch_json = files"
  shows "snd (load_latest_bronze fs d) =
              (if files = [] then Inl FileNotFoundError
               else case read_all fs files of Inl e \<Rightarrow> Inl e | Inr records \<Rightarrow> Inr (DataFrame records))"
  using assms by (simp add: load_latest_bronze_def Let_def split: sum.splits)

text \<open>
  C8 (as amended). Let the path of the raw root, and the name of the partition that is
  greatest in the order of strings, contain none of the metacharacters \<open>*\<close>, \<open>?\<close>,
  \<open>[\<close> of \<open>glob\<close>. Without a partition
  \<open>load_latest_bronze\<close> raises \<open>FileNotFoundError\<close>. Otherwise it selects a partition
  \<open>k\<close> whose date key (the name after \<open>ingestion_date=\<close>) is greatest in the order of
  strings, and raises \<open>FileNotFoundError\<close> when \<open>k\<close> holds no JSON file. When it holds
  some, an exception is raised exactly when \<open>open\<close> or \<open>json.load\<close> raises on one of
  them, and it is such an exception; when every file opens and parses, the result is a
  frame whose records are the records of all the files of \<open>k\<close>, concatenated in the order
  of the listing, and whose columns are the keys of these records in order of first
  appearance.
\<close>

theorem load_latest_bronze_latest:
  assumes "\<not> has_magic d"
    and "\<forall>k \<in> set (partition_names fs d).
           (\<forall>n \<in> set (partition_names fs d). n \<le> k) \<longrightarrow> \<not> has_magic k"
  shows
  "(partition_names fs d = [] \<longrightarrow> load_latest_bronze fs d = ([], Inl FileNotFoundError)) \<and>
   (partition_names fs d \<noteq> [] \<longrightarrow>
      (\<exists>k. k \<in> set (partition_names fs d) \<and>
           (\<forall>n \<in> set (partition_names fs d). drop 15 n \<le> drop 15 k) \<and>
           (json_names fs (partition_path d k) = [] \<longrightarrow>
              snd (load_latest_bronze fs d) = Inl FileNotFoundError) \<and>
           (json_names fs (partition_path d k) \<noteq> [] \<longrightarrow>
              (\<forall>e. snd (load_latest_bronze fs d) = Inl e \<longrightarrow>
                 (\<exists>f \<in> set (json_paths fs (partition_path d k)). open_json fs f = Inl e)) \<and>
              ((\<exists>f \<in> set (json_paths fs (partition_path d k)). \<exists>e. open_json fs f = Inl e) \<longrightarrow>
                 (\<exists>e. snd (load_latest_bronze fs d) = Inl e)) \<and>
              ((\<forall>f \<in> set (json_paths fs (partition_path d k)). \<exists>rs. open_json fs f = Inr rs) \<longrightarrow>
                 (\<exists>df. snd (load_latest_bronze fs d) = Inr df \<and>
                    rows df = concat (map (\<lambda>f. projr (open_json fs f))
                                        (json_paths fs (partition_path d k))) \<and>
                    col_names df = first_seen (concat (map (map fst) (rows df))))))))"
proof (intro conjI impI)
  let ?D = "glob_dirname d ''ingestion_date=*''"
  have nm1: "\<not> has_magic ?D" using assms(1) by (intro no_magic_glob_dirname) auto
  have g1: "glob fs (os_path_join d ''ingestion_date=*'') fnmatch_partition =
              map (os_path_join ?D) (partition_names fs d)"
    using glob_literal[OF nm1] by (simp add: partition_names_def)
  {
    assume "partition_names fs d = []"
    then show "load_latest_bronze fs d = ([], Inl FileNotFoundError)"
      by (simp add: load_latest_bronze_def g1)
  }
  assume ne: "partition_names fs d \<noteq> []"
  define k where "k = Max (set (partition_names fs d))"
  define p where "p = partition_path d k"
  define files where "files = json_paths fs p"
  have kin: "k \<in> set (partition_names fs d)" using ne by (simp add: k_def)
  have kmax: "n \<le> k" if "n \<in> set (partition_names fs d)" for n
    using that by (simp add: k_def)
  have keys: "\<forall>n \<in> set (partition_names fs d). drop 15 n \<le> drop 15 k"
  proof
    fix n assume n: "n \<in> set (partition_names fs d)"
    from date_key_le[OF partition_names_match[OF n] partition_names_match[OF kin]] kmax[OF n]
    show "drop 15 n \<le> drop 15 k" by blast
  qed
  have sne: "sort (map (os_path_join ?D) (partition_names fs d)) \<noteq> []"
    by (rule sort_map_ne[OF ne])
  have lp: "last (sort (map (os_path_join ?D) (partition_names fs d))) = p"
    using latest_partition[OF ne, of ?D] by (simp add: p_def partition_path_def k_def)
  have "\<not> has_magic k" using assms(2) kin kmax by blast
  with nm1 have "\<not> has_magic p" unfolding p_def partition_path_def by (rule no_magic_join)
  then have nm2: "\<not> has_magic (glob_dirname p ''*.json'')"
    by (intro no_magic_glob_dirname) auto
  have g2: "glob fs (os_path_join p ''*.json'') fnmatch_json = files"
    using glob_literal[OF nm2] by (simp add: files_def json_paths_def json_names_def)
  have fe: "(files = []) = (json_names fs p = [])" by (simp add: files_def json_paths_def)
  have ld: "snd (load_latest_bronze fs d) =
              (if files = [] then Inl FileNotFoundError
               else case read_all fs files of Inl e \<Rightarrow> Inl e | Inr records \<Rightarrow> Inr (DataFrame records))"
    by (rule load_unfold[OF g1 sne lp g2])
  have a: "json_names fs p = [] \<longrightarrow> snd (load_latest_bronze fs d) = Inl FileNotFoundError"
    by (simp add: ld fe)
  have rest: "(\<forall>e. snd (load_latest_bronze fs d) = Inl e \<longrightarrow> (\<exists>f \<in> set files. open_json fs f = Inl e)) \<and>
     ((\<exists>f \<in> set files. \<exists>e. open_json fs f = Inl e) \<longrightarrow> (\<exists>e. snd (load_latest_bronze fs d) = Inl e)) \<and>
     ((\<forall>f \<in> set files. \<exists>rs. open_json fs f = Inr rs) \<longrightarrow>
        (\<exists>df. snd (load_latest_bronze fs d) = Inr df \<and>
           rows df = concat (map (\<lambda>f. projr (open_json fs f)) files) \<and>
           col_names df = first_seen (concat (map (map fst) (rows df)))))"
    if j: "json_names fs p \<noteq> []"
  proof -
    from j fe have "files \<noteq> []" by simp
    then have ld': "snd (load_latest_bronze fs d) =
        (case read_all fs files of Inl e \<Rightarrow> Inl e | Inr records \<Rightarrow> Inr (DataFrame records))"
      by (simp add: ld)
    have b: "\<exists>f \<in> set files. open_json fs f = Inl e" if "snd (load_latest_bronze fs d) = Inl e" for e
    proof (cases "read_all fs files")
      case (Inl e')
      with that ld' have "e' = e" by simp
      with Inl show ?thesis by (simp add: read_all_Inl)
    next
      case (Inr records)
      with that ld' show ?thesis by simp
    qed
    have c: "\<exists>e. snd (load_latest_bronze fs d) = Inl e"
      if "\<exists>f \<in> set files. \<exists>e. open_json fs f = Inl e"
    proof -
      from that obtain f e where "f \<in> set files" "open_json fs f = Inl e" by blast
      from read_all_fails[OF this] obtain e' where "read_all fs files = Inl e'" by blast
      then show ?thesis by (simp add: ld')
    qed
    have e: "\<exists>df. snd (load_latest_bronze fs d) = Inr df \<and>
           rows df = concat (map (\<lambda>f. projr (open_json fs f)) files) \<and>
           col_names df = first_seen (concat (map (map fst) (rows df)))"
      if "\<forall>f \<in> set files. \<exists>rs. open_json fs f = Inr rs"
    proof -
      from read_all_Inr[OF that]
      have "snd (load_latest_bronze fs d) =
              Inr (DataFrame (concat (map (\<lambda>f. projr (open_json fs f)) files)))"
        by (simp add: ld')
      then show ?thesis by (simp add: DataFrame_rows DataFrame_col_names)
    qed
    from b c e show ?thesis by (intro conjI allI impI)
  qed
  show "\<exists>k. k \<in> set (partition_names fs d) \<and>
           (\<forall>n \<in> set (partition_names fs d). drop 15 n \<le> drop 15 k) \<and>
           (json_names fs (partition_path d k) = [] \<longrightarrow>
              snd (load_latest_bronze fs d) = Inl FileNotFoundError) \<and>
           (json_names fs (partition_path d k) \<noteq> [] \<longrightarrow>
              (\<forall>e. snd (load_latest_bronze fs d) = Inl e \<longrightarrow>
                 (\<exists>f \<in> set (json_paths fs (partition_path d k)). open_json fs f = Inl e)) \<and>
              ((\<exists>f \<in> set (json_paths fs (partition_path d k)). \<exists>e. open_json fs f = Inl e) \<longrightarrow>
                 (\<exists>e. snd (load_latest_bronze fs d) = Inl e)) \<and>
              ((\<forall>f \<in> set (json_paths fs (partition_path d k)). \<exists>rs. open_json fs f = Inr rs) \<longrightarrow>
                 (\<exists>df. snd (load_latest_bronze fs d) = Inr df \<and>
                    rows df = concat (map (\<lambda>f. projr (open_json fs f))
                                        (json_paths fs (partition_path d k))) \<and>
                    col_names df = first_seen (concat (map (map fst) (rows df))))))"
  proof (rule exI[of _ k], intro conjI)
    show "k \<in> set (partition_names fs d)" by (rule kin)
    show "\<forall>n \<in> set (partition_names fs d). drop 15 n \<le> drop 15 k" by (rule keys)
    show "json_names fs (partition_path d k) = [] \<longrightarrow>
            snd (load_latest_bronze fs d) = Inl FileNotFoundError"
      using a by (simp only: p_def)
    show "json_names fs (partition_path d k) \<noteq> [] \<longrightarrow>
              (\<forall>e. snd (load_latest_bronze fs d) = Inl e \<longrightarrow>
                 (\<exists>f \<in> set (json_paths fs (partition_path d k)). open_json fs f = Inl e)) \<and>
              ((\<exists>f \<in> set (json_paths fs (partition_path d k)). \<exists>e. open_json fs f = Inl e) \<longrightarrow>
                 (\<exists>e. snd (load_latest_bronze fs d) = Inl e)) \<and>
              ((\<forall>f \<in> set (json_paths fs (partition_path d k)). \<exists>rs. open_json fs f = Inr rs) \<longrightarrow>
                 (\<exists>df. snd (load_latest_bronze fs d) = Inr df \<and>
                    rows df = concat (map (\<lambda>f. projr (open_json fs f))
                                        (json_paths fs (partition_path d k))) \<and>
                    col_names df = first_seen (concat (map (map fst) (rows df)))))"
      using rest unfolding files_def p_def by (rule impI)
  qed
qed

theorem load_latest_bronze_latest_witness:
  "\<not> has_magic ''b'' \<and>
   partition_names ex_fs ''b'' = [''ingestion_date=2024-01-02'', ''ingestion_date=2024-01-10''] \<and>
   json_paths ex_fs (partition_path ''b'' ''ingestion_date=2024-01-10'') =
     [''b/ingestion_date=2024-01-10/x.json'', ''b/ingestion_date=2024-01-10/z.json''] \<and>
   (\<exists>df. snd (load_latest_bronze ex_fs ''b'') = Inr df \<and>
      rows df = [[(''id'', Str ''1'')], [(''id'', Str ''2''), (''name'', Str ''n'')]] \<and>
      col_names df = [''id'', ''name''])"
proof -
  have m: "\<not> has_magic ''b''" by code_simp
  have p: "partition_names ex_fs ''b'' = [''ingestion_date=2024-01-02'', ''ingestion_date=2024-01-10'']"
    by code_simp
  have pm: "\<forall>k \<in> set (partition_names ex_fs ''b'').
              (\<forall>n \<in> set (partition_names ex_fs ''b''). n \<le> k) \<longrightarrow> \<not> has_magic k"
    unfolding p by code_simp
  have jp: "json_paths ex_fs (partition_path ''b'' ''ingestion_date=2024-01-10'') =
     [''b/ingestion_date=2024-01-10/x.json'', ''b/ingestion_date=2024-01-10/z.json'']"
    by code_simp
  have jn: "json_names ex_fs (partition_path ''b'' ''ingestion_date=2024-01-10'') \<noteq> []"
    by code_simp
  have o1: "open_json ex_fs ''b/ingestion_date=2024-01-10/x.json'' = Inr [[(''id'', Str ''1'')]]"
    by code_simp
  have o2: "open_json ex_fs ''b/ingestion_date=2024-01-10/z.json'' =
              Inr [[(''id'', Str ''2''), (''name'', Str ''n'')]]"
    by code_simp
  have lt: "\<not> drop 15 ''ingestion_date=2024-01-10'' \<le> drop 15 ''ingestion_date=2024-01-02''"
    by code_simp
  from load_latest_bronze_latest [OF m pm] p obtain k where
    k: "k \<in> set (partition_names ex_fs ''b'')"
       "\<forall>n \<in> set (partition_names ex_fs ''b''). drop 15 n \<le> drop 15 k"
    and r: "json_names ex_fs (partition_path ''b'' k) \<noteq> [] \<longrightarrow>
              (\<forall>e. snd (load_latest_bronze ex_fs ''b'') = Inl e \<longrightarrow>
                 (\<exists>f \<in> set (json_paths ex_fs (partition_path ''b'' k)). open_json ex_fs f = Inl e)) \<and>
              ((\<exists>f \<in> set (json_paths ex_fs (partition_path ''b'' k)). \<exists>e. open_json ex_fs f = Inl e) \<longrightarrow>
                 (\<exists>e. snd (load_latest_bronze ex_fs ''b'') = Inl e)) \<and>
              ((\<forall>f \<in> set (json_paths ex_fs (partition_path ''b'' k)). \<exists>rs. open_json ex_fs f = Inr rs) \<longrightarrow>
                 (\<exists>df. snd (load_latest_bronze ex_fs ''b'') = Inr df \<and>
                    rows df = concat (map (\<lambda>f. projr (open_json ex_fs f))
                                        (json_paths ex_fs (partition_path ''b'' k))) \<and>
                    col_names df = first_seen (concat (map (map fst) (rows df)))))"
    by auto
  from k lt have keq: "k = ''ingestion_date=2024-01-10''" unfolding p by auto
  from r jn obtain df where
    df: "snd (load_latest_bronze ex_fs ''b'') = Inr df"
        "rows df = concat (map (\<lambda>f. projr (open_json ex_fs f))
                            (json_paths ex_fs (partition_path ''b'' ''ingestion_date=2024-01-10'')))"
        "col_names df = first_seen (concat (map (map fst) (rows df)))"
    unfolding keq jp by (auto simp: o1 o2)
  from df(2) have rw: "rows df = [[(''id'', Str ''1'')], [(''id'', Str ''2''), (''name'', Str ''n'')]]"
    unfolding jp by (simp add: o1 o2)
  have "first_seen (concat (map (map fst) [[(''id'', Str ''1'')], [(''id'', Str ''2''), (''name'', Str ''n'')]]))
          = [''id'', ''name'']"
    by code_simp
  with df(3) rw have "col_names df = [''id'', ''name'']" by simp
  with m p jp df(1) rw show ?thesis by blast
qed

text \<open>
  The claim C8 as it was stated fails in three ways. Under a raw root whose path has a
  bracket, \<open>glob\<close> reads the path as a pattern and finds no partition, although one is
  there and holds a readable file: the loader raises \<open>FileNotFoundError\<close>. And a
  partition that holds a readable file beside a dangling entry \<open>y.json\<close> makes
  \<open>open\<close> raise \<open>FileNotFoundError\<close>, although there is a partition and it holds a
  raw file. And when the name of the latest partition has a question mark, \<open>glob\<close> reads
  the files of every partition its path matches as a pattern; the loader returns the
  records of an older partition together with those of the selected one.
\<close>

theorem metacharacter_or_dangling_entry_raises:
  "partition_names bracket_fs ''proj [v2]/bronze'' = [''ingestion_date=2024-01-01''] \<and>
   json_names bracket_fs (partition_path ''proj [v2]/bronze'' ''ingestion_date=2024-01-01'') = [''x.json''] \<and>
   json_paths bracket_fs (partition_path ''proj [v2]/bronze'' ''ingestion_date=2024-01-01'') =
     [''proj [v2]/bronze/ingestion_date=2024-01-01/x.json''] \<and>
   open_json bracket_fs ''proj [v2]/bronze/ingestion_date=2024-01-01/x.json'' =
     Inr [[(''id'', Str ''1'')]] \<and>
   load_latest_bronze bracket_fs ''proj [v2]/bronze'' = ([], Inl FileNotFoundError) \<and>
   partition_names dangling_fs ''b'' = [''ingestion_date=2024-01-01''] \<and>
   json_names dangling_fs (partition_path ''b'' ''ingestion_date=2024-01-01'') = [''x.json'', ''y.json''] \<and>
   open_json dangling_fs ''b/ingestion_date=2024-01-01/x.json'' = Inr [[(''id'', Str ''1'')]] \<and>
   snd (load_latest_bronze dangling_fs ''b'') = Inl FileNotFoundError \<and>
   partition_names question_fs ''b'' = [''ingestion_date=2024-01-01'', ''ingestion_date=2024-01-0?''] \<and>
   json_paths question_fs (partition_path ''b'' ''ingestion_date=2024-01-0?'') =
     [''b/ingestion_date=2024-01-0?/y.json''] \<and>
   map_sum id rows (snd (load_latest_bronze question_fs ''b'')) =
     Inr [[(''id'', Str ''old'')], [(''id'', Str ''new'')]]"
  by code_simp

section \<open>Properties of the Gold aggregations\<close>

lemma has_col_set_col: "has_col (set_col c t vs df) c' = (c' = c \<or> has_col df c')"
  by (auto simp: has_col_def col_names_def set_col_def update_keys)

lemma missing_col_None: "(missing_col df cs = None) = list_all (has_col df) cs"
  by (induction cs) auto

lemma groupby_Nil: "groupby ks flag [] = []"
  by (simp add: groupby_def sort_rows_def)

lemma sort_values_Nil: "sort_values ks [] = Inr []"
  by (simp add: sort_values_def comparable_def dropna_def sort_rows_def list_all_iff split: prod.splits)

lemma count_by_empty:
  "rows df = [] \<Longrightarrow> list_all (has_col df) (ks @ [''id'']) \<Longrightarrow> count_by ks df = Inr []"
  by (simp add: count_by_def groupby_Nil missing_col_None[THEN iffD2])

lemma agg1_empty:
  assumes "rows df = []" "list_all (has_col df) gold_columns"
  shows "\<exists>t. agg_breweries_by_type_and_state df = Inr (df, t) \<and> rows t = []"
  using assms
  by (simp add: agg_breweries_by_type_and_state_def count_by_empty sort_values_Nil gold_columns_def)

lemma agg2_empty:
  assumes "rows df = []" "list_all (has_col df) gold_columns"
  shows "\<exists>t. agg_breweries_by_country_and_type df = Inr (df, t) \<and> rows t = []"
  using assms
  by (simp add: agg_breweries_by_country_and_type_def count_by_empty sort_values_Nil gold_columns_def)

lemma agg3_empty:
  assumes "rows df = []" "list_all (has_col df) gold_columns"
  shows "\<exists>t. agg_top_cities df n = Inr (df, t) \<and> rows t = []"
  using assms
  by (simp add: agg_top_cities_def count_by_empty sort_values_Nil gold_columns_def head_def)

lemma agg4_empty:
  assumes "rows df = []" "list_all (has_col df) gold_columns"
  shows "\<exists>t. agg_geo_coverage df = Inr (df, t) \<and> rows t = []"
  using assms
  by (simp add: agg_geo_coverage_def count_by_empty sort_values_Nil gold_columns_def)

lemma agg5_empty:
  assumes "rows df = []" "list_all (has_col df) gold_columns"
  shows "\<exists>d t. agg_digital_maturity df = Inr (d, t) \<and> rows t = [] \<and> rows d = [] \<and>
           list_all (has_col d) gold_columns"
  using assms
  by (simp add: agg_digital_maturity_def Let_def has_col_set_col col_empty rows_set_col_empty
      groupby_Nil sort_values_Nil gold_columns_def)

lemma agg6_empty:
  assumes "rows df = []" "list_all (has_col df) gold_columns"
  shows "\<exists>t. agg_regional_diversity df = Inr (df, t) \<and> rows t = []"
  using assms
  by (simp add: agg_regional_diversity_def groupby_Nil sort_values_Nil gold_columns_def)

lemma agg7_empty:
  assumes "rows df = []" "list_all (has_col df) gold_columns"
  shows "\<exists>t. agg_market_specialization df = Inr (df, t) \<and> rows t = []"
  using assms
  by (simp add: agg_market_specialization_def groupby_Nil sort_values_Nil gold_columns_def Let_def)

lemma agg8_empty:
  assumes "rows df = []" "list_all (has_col df) gold_columns"
  shows "\<exists>d t. agg_data_trust_score df = Inr (d, t) \<and> rows t = []"
  using assms
  by (simp add: agg_data_trust_score_def critical_cols_def Let_def has_col_set_col
      rows_set_col_empty groupby_Nil sort_values_Nil gold_columns_def)

lemma check_volume_empty:
  "rows t = [] \<Longrightarrow>
   check_volume t 1 None = \<lparr>check_name = ''check_volume'', passed = False, details = [RowsBelowMin 0 1]\<rparr>"
  by (simp add: check_volume_def len_def)

lemma gold_checks_fail:
  "rows t = [] \<Longrightarrow> snd (run_gold_dq ((n, t) # ts)) = Inl ValueError"
  by (simp add: run_gold_dq_def gold_checks_def run_suite_def check_volume_empty Let_def)


lemma aggregations_empty:
  assumes r: "rows df = []" and h: "list_all (has_col df) gold_columns"
  shows "\<exists>d t1 t2 t3 t4 t5 t6 t7 t8.
           aggregations df =
             Inr (d, [(''breweries_by_type_and_state'', t1), (''breweries_by_country_and_type'', t2),
                      (''top_cities_by_brewery_count'', t3), (''geo_coverage_by_state'', t4),
                      (''digital_maturity'', t5), (''regional_diversity'', t6),
                      (''market_specialization'', t7), (''data_trust_score'', t8)]) \<and>
           rows t1 = [] \<and> rows t2 = [] \<and> rows t3 = [] \<and> rows t4 = [] \<and>
           rows t5 = [] \<and> rows t6 = [] \<and> rows t7 = [] \<and> rows t8 = []"
proof -
  from agg1_empty[OF r h] obtain t1 where
    t1: "agg_breweries_by_type_and_state df = Inr (df, t1)" "rows t1 = []" by blast
  from agg2_empty[OF r h] obtain t2 where
    t2: "agg_breweries_by_country_and_type df = Inr (df, t2)" "rows t2 = []" by blast
  from agg3_empty[OF r h] obtain t3 where
    t3: "agg_top_cities df 20 = Inr (df, t3)" "rows t3 = []" by blast
  from agg4_empty[OF r h] obtain t4 where
    t4: "agg_geo_coverage df = Inr (df, t4)" "rows t4 = []" by blast
  from agg5_empty[OF r h] obtain d5 t5 where
    t5: "agg_digital_maturity df = Inr (d5, t5)" "rows t5 = []"
    and r5: "rows d5 = []" and h5: "list_all (has_col d5) gold_columns" by blast
  from agg6_empty[OF r5 h5] obtain t6 where
    t6: "agg_regional_diversity d5 = Inr (d5, t6)" "rows t6 = []" by blast
  from agg7_empty[OF r5 h5] obtain t7 where
    t7: "agg_market_specialization d5 = Inr (d5, t7)" "rows t7 = []" by blast
  from agg8_empty[OF r5 h5] obtain d8 t8 where
    t8: "agg_data_trust_score d5 = Inr (d8, t8)" "rows t8 = []" by blast
  have "aggregations df =
          Inr (d8, [(''breweries_by_type_and_state'', t1), (''breweries_by_country_and_type'', t2),
                    (''top_cities_by_brewery_count'', t3), (''geo_coverage_by_state'', t4),
                    (''digital_maturity'', t5), (''regional_diversity'', t6),
                    (''market_specialization'', t7), (''data_trust_score'', t8)])"
    by (simp add: aggregations_def then_agg_def t1 t2 t3 t4 t5 t6 t7 t8)
  with t1(2) t2(2) t3(2) t4(2) t5(2) t6(2) t7(2) t8(2) show ?thesis by blast
qed

text \<open>
  C7 (as amended). On a Dataset without a record that has the columns the aggregations
  read, each of the eight aggregations returns a table without a record; \<open>check_volume\<close>
  with a minimum of 1 fails on such a table and says that 0 rows are below the minimum of
  1; the suite run by \<open>run_gold_dq\<close> raises; and \<open>process_gold\<close> ends with that
  exception, so that no table is written.
\<close>

theorem empty_gold_is_blocked:
  assumes "rows df = []" and "list_all (has_col df) gold_columns"
  shows "(\<exists>d t. agg_breweries_by_type_and_state df = Inr (d, t) \<and> rows t = []) \<and>
         (\<exists>d t. agg_breweries_by_country_and_type df = Inr (d, t) \<and> rows t = []) \<and>
         (\<exists>d t. agg_top_cities df top_n = Inr (d, t) \<and> rows t = []) \<and>
         (\<exists>d t. agg_geo_coverage df = Inr (d, t) \<and> rows t = []) \<and>
         (\<exists>d t. agg_digital_maturity df = Inr (d, t) \<and> rows t = []) \<and>
         (\<exists>d t. agg_regional_diversity df = Inr (d, t) \<and> rows t = []) \<and>
         (\<exists>d t. agg_market_specialization df = Inr (d, t) \<and> rows t = []) \<and>
         (\<exists>d t. agg_data_trust_score df = Inr (d, t) \<and> rows t = []) \<and>
         (\<forall>t. rows t = [] \<longrightarrow>
            check_volume t 1 None =
              \<lparr>check_name = ''check_volume'', passed = False, details = [RowsBelowMin 0 1]\<rparr>) \<and>
         (\<exists>d ts. aggregations df = Inr (d, ts) \<and> snd (run_gold_dq ts) = Inl ValueError) \<and>
         snd (process_gold doc df) = Inl ValueError"
proof (intro conjI)
  show "\<exists>d t. agg_breweries_by_type_and_state df = Inr (d, t) \<and> rows t = []"
    using agg1_empty[OF assms] by blast
  show "\<exists>d t. agg_breweries_by_country_and_type df = Inr (d, t) \<and> rows t = []"
    using agg2_empty[OF assms] by blast
  show "\<exists>d t. agg_top_cities df top_n = Inr (d, t) \<and> rows t = []"
    using agg3_empty[OF assms] by blast
  show "\<exists>d t. agg_geo_coverage df = Inr (d, t) \<and> rows t = []"
    using agg4_empty[OF assms] by blast
  show "\<exists>d t. agg_digital_maturity df = Inr (d, t) \<and> rows t = []"
    using agg5_empty[OF assms] by blast
  show "\<exists>d t. agg_regional_diversity df = Inr (d, t) \<and> rows t = []"
    using agg6_empty[OF assms] by blast
  show "\<exists>d t. agg_market_specialization df = Inr (d, t) \<and> rows t = []"
    using agg7_empty[OF assms] by blast
  show "\<exists>d t. agg_data_trust_score df = Inr (d, t) \<and> rows t = []"
    using agg8_empty[OF assms] by blast
  show "\<forall>t. rows t = [] \<longrightarrow>
            check_volume t 1 None =
              \<lparr>check_name = ''check_volume'', passed = False, details = [RowsBelowMin 0 1]\<rparr>"
    by (simp add: check_volume_empty)
  from aggregations_empty[OF assms] obtain d t1 ts where
    a: "aggregations df = Inr (d, (''breweries_by_type_and_state'', t1) # ts)" "rows t1 = []"
    by blast
  have g: "snd (run_gold_dq ((''breweries_by_type_and_state'', t1) # ts)) = Inl ValueError"
    using a(2) by (rule gold_checks_fail)
  from a g show "\<exists>d ts. aggregations df = Inr (d, ts) \<and> snd (run_gold_dq ts) = Inl ValueError"
    by blast
  from g show "snd (process_gold doc df) = Inl ValueError"
    by (cases "run_gold_dq ((''breweries_by_type_and_state'', t1) # ts)")
       (simp add: process_gold_def a)
qed

theorem empty_gold_is_blocked_witness:
  "rows (empty_frame gold_columns) = [] \<and>
   list_all (has_col (empty_frame gold_columns)) gold_columns \<and>
   (\<exists>d t. agg_digital_maturity (empty_frame gold_columns) = Inr (d, t) \<and> rows t = []) \<and>
   snd (process_gold (\<lambda>ts. None) (empty_frame gold_columns)) = Inl ValueError"
proof -
  have r: "rows (empty_frame gold_columns) = []" by (simp add: empty_frame_def)
  have h: "list_all (has_col (empty_frame gold_columns)) gold_columns"
    by (simp add: empty_frame_def gold_columns_def has_col_def col_names_def)
  from empty_gold_is_blocked [OF r h, of 20 "\<lambda>ts. None"] r h show ?thesis by blast
qed

text \<open>
  The claim C7 as it was stated fails on the empty Dataset the pipeline itself produces:
  \<open>transform\<close> turns the frame of zero records into a frame whose only column is
  \<open>processed_at\<close>, and on it every aggregation raises \<open>KeyError\<close>.
\<close>

theorem empty_cleaned_frame_raises:
  "transform ex_env (DataFrame []) =
     Inr (empty_frame [''processed_at''],
          [Deduplicated 0 0, StringsCleaned, PhonesNormalized, PostalCodesNormalized,
           BreweryTypeStandardized, ColumnsDropped [], MetadataAdded]) \<and>
   agg_breweries_by_type_and_state (empty_frame [''processed_at'']) = Inl (KeyError ''brewery_type'') \<and>
   agg_breweries_by_country_and_type (empty_frame [''processed_at'']) = Inl (KeyError ''country'') \<and>
   agg_top_cities (empty_frame [''processed_at'']) 20 = Inl (KeyError ''city'') \<and>
   agg_geo_coverage (empty_frame [''processed_at'']) = Inl (KeyError ''country'') \<and>
   agg_digital_maturity (empty_frame [''processed_at'']) = Inl (KeyError ''website_url'') \<and>
   agg_regional_diversity (empty_frame [''processed_at'']) = Inl (KeyError ''state_province'') \<and>
   agg_market_specialization (empty_frame [''processed_at'']) = Inl (KeyError ''brewery_type'') \<and>
   agg_data_trust_score (empty_frame [''processed_at'']) = Inl (KeyError ''address_1'')"
  by code_simp

lemma set_insort_row: "set (insort_row ks r rs) = insert r (set rs)"
  by (induction rs) auto

lemma set_sort_rows: "set (sort_rows ks rs) = set rs"
  unfolding sort_rows_def by (induction rs) (auto simp: set_insort_row)

lemma sort_values_set: "sort_values ks rs = Inr out \<Longrightarrow> set out = set rs"
  by (auto simp: sort_values_def set_sort_rows split: if_splits)

lemma firsts_subset: "set (firsts ks rs) \<subseteq> set rs"
  by (induction ks rs rule: firsts.induct) auto

lemma firsts_cover: "r \<in> set rs \<Longrightarrow> \<exists>s \<in> set (firsts ks rs). key_of ks s = key_of ks r"
proof (induction ks rs rule: firsts.induct)
  case (1 ks)
  then show ?case by simp
next
  case (2 ks x xs)
  show ?case
  proof (cases "key_of ks r = key_of ks x")
    case True
    then show ?thesis by auto
  next
    case False
    with "2.prems" have "r \<in> set (filter (\<lambda>s. key_of ks s \<noteq> key_of ks x) xs)" by auto
    from "2.IH"[OF this] show ?thesis by auto
  qed
qed

lemma get_key_row:
  "c \<in> set ks \<Longrightarrow> get (map (\<lambda>k. (k, get r k)) ks @ rest) c = get r c"
proof -
  assume "c \<in> set ks"
  then have "map_of (map (\<lambda>k. (k, get r k)) ks) c = Some (get r c)"
    by (induction ks) auto
  then show ?thesis by (simp add: get_def)
qed

lemma groupby_keys_kept:
  assumes "(k, g) \<in> set (groupby ks flag rs)"
  shows "\<exists>r \<in> set rs. k = map (\<lambda>c. (c, get r c)) ks \<and> (flag \<longrightarrow> Null \<notin> set (key_of ks r))"
proof -
  let ?kept = "filter (\<lambda>r. \<not> flag \<or> Null \<notin> set (key_of ks r)) rs"
  from assms obtain r where r: "r \<in> set (firsts ks ?kept)" "k = map (\<lambda>c. (c, get r c)) ks"
    by (auto simp: groupby_def Let_def set_sort_rows)
  from r(1) firsts_subset[of ks ?kept] have "r \<in> set ?kept" by blast
  with r(2) show ?thesis by auto
qed

lemma groupby_all_keys:
  assumes "r \<in> set rs"
  shows "\<exists>(k, g) \<in> set (groupby ks False rs). \<exists>s. k = map (\<lambda>c. (c, get s c)) ks \<and> key_of ks s = key_of ks r"
proof -
  from firsts_cover[OF assms, of ks] obtain s where
    s: "s \<in> set (firsts ks rs)" "key_of ks s = key_of ks r" by blast
  then show ?thesis
    by (force simp: groupby_def Let_def set_sort_rows)
qed

lemma py_key_Null: "(py_key v = Null) = (v = Null)"
  by (cases v) auto

text \<open>With \<open>dropna=False\<close> every record belongs to a group of the count.\<close>

lemma count_by_keeps_every_key:
  assumes "count_by ks df = Inr counted" and "r \<in> set (rows df)"
  shows "\<exists>g \<in> set counted. key_of ks g = key_of ks r"
proof -
  from assms(1) have c: "counted = map (\<lambda>(k, g). k @ [(''brewery_count'', count_nat (count_id g))])
                           (groupby ks False (rows df))"
    by (auto simp: count_by_def split: option.splits)
  from groupby_all_keys[OF assms(2), of ks] obtain k g s where
    kg: "(k, g) \<in> set (groupby ks False (rows df))" "k = map (\<lambda>c. (c, get s c)) ks"
        "key_of ks s = key_of ks r" by blast
  have "key_of ks (k @ [(''brewery_count'', count_nat (count_id g))]) = key_of ks s"
    unfolding key_of_def kg(2) by (simp add: get_key_row)
  with kg c show ?thesis by force
qed

lemma null_state_kept_by_type_and_state:
  assumes "agg_breweries_by_type_and_state df = Inr (d, t)" and "r \<in> set (rows df)"
  shows "\<exists>g \<in> set (rows t). key_of [''brewery_type'', ''state_province''] g =
                               key_of [''brewery_type'', ''state_province''] r"
proof -
  from assms(1) obtain counted where
    c: "count_by [''brewery_type'', ''state_province''] df = Inr counted"
    and s: "sort_values [(''state_province'', True), (''brewery_count'', False)] counted = Inr (rows t)"
    by (auto simp: agg_breweries_by_type_and_state_def split: sum.splits)
  from count_by_keeps_every_key[OF c assms(2)] sort_values_set[OF s] show ?thesis by simp
qed

text \<open>Without it no group has a null key: a record with a null state is in no group.\<close>

lemma digital_maturity_has_no_null_state:
  assumes "agg_digital_maturity df = Inr (d, t)" and "g \<in> set (rows t)"
  shows "get g ''state_province'' \<noteq> Null"
proof -
  from assms(1) have
    s: "sort_values [(''maturity_score'', False)]
          (map maturity_row (groupby [''state_province''] True (rows d))) = Inr (rows t)"
    by (auto simp: agg_digital_maturity_def Let_def split: if_splits option.splits sum.splits)
  from sort_values_set[OF s] assms(2) obtain k grp where
    kg: "(k, grp) \<in> set (groupby [''state_province''] True (rows d))" "g = maturity_row (k, grp)"
    by auto
  from groupby_keys_kept[OF kg(1)] obtain r where
    r: "k = [(''state_province'', get r ''state_province'')]" "py_key (get r ''state_province'') \<noteq> Null"
    by (auto simp: key_of_def)
  then show ?thesis by (simp add: kg(2) maturity_row_def Let_def get_def py_key_Null)
qed

text \<open>
  C1. The claim asks that an aggregation leaves the Dataset it is given unchanged. Two of
  the eight do not: on the example \<open>agg_digital_maturity\<close> returns with the columns
  \<open>has_website\<close>, \<open>has_phone\<close> and \<open>digitally_ready\<close> added to the caller's frame,
  and \<open>agg_data_trust_score\<close> with the column \<open>completeness\<close> added.
\<close>

theorem two_aggregations_assign_to_their_input:
  "map_option col_names (frame_of (agg_digital_maturity gold_df)) =
     Some (col_names gold_df @ [''has_website'', ''has_phone'', ''digitally_ready'']) \<and>
   map_option col_names (frame_of (agg_data_trust_score gold_df)) =
     Some (col_names gold_df @ [''completeness'']) \<and>
   frame_of (agg_digital_maturity gold_df) \<noteq> Some gold_df \<and>
   frame_of (agg_data_trust_score gold_df) \<noteq> Some gold_df"
  by code_simp

text \<open>The other six return with the frame as it was.\<close>

lemma six_aggregations_keep_their_input:
  "frame_of (agg_breweries_by_type_and_state df) \<in> {None, Some df}"
  "frame_of (agg_breweries_by_country_and_type df) \<in> {None, Some df}"
  "frame_of (agg_top_cities df n) \<in> {None, Some df}"
  "frame_of (agg_geo_coverage df) \<in> {None, Some df}"
  "frame_of (agg_regional_diversity df) \<in> {None, Some df}"
  "frame_of (agg_market_specialization df) \<in> {None, Some df}"
  by (simp_all add: frame_of_def agg_breweries_by_type_and_state_def
      agg_breweries_by_country_and_type_def agg_top_cities_def agg_geo_coverage_def
      agg_regional_diversity_def agg_market_specialization_def Let_def
      split: sum.splits option.splits)

text \<open>
  C2. The claim asks that records with a null key form a group of their own in every
  aggregation. On the example, whose second record has a null \<open>state_province\<close>, the
  count by type and state has the group of the null state, and the four aggregations
  by state alone (digital maturity, regional diversity, market specialization, data trust
  score) have no record for it.
\<close>

theorem default_groupby_drops_null_state:
  "table_of (agg_breweries_by_type_and_state gold_df) =
     Some [[(''brewery_type'', Str ''micro''), (''state_province'', Str ''CA''),
            (''brewery_count'', Num (Fin 1))],
           [(''brewery_type'', Str ''nano''), (''state_province'', Null),
            (''brewery_count'', Num (Fin 1))]] \<and>
   table_of (agg_digital_maturity gold_df) =
     Some [[(''state_province'', Str ''CA''), (''total_breweries'', Num (Fin 1)),
            (''digitally_ready_count'', Num (Fin 1)), (''maturity_score'', Num (Fin 100))]] \<and>
   table_of (agg_regional_diversity gold_df) =
     Some [[(''state_province'', Str ''CA''), (''unique_brewery_types'', Num (Fin 1))]] \<and>
   table_of (agg_market_specialization gold_df) =
     Some [[(''state_province'', Str ''CA''), (''total_brewery_count'', Num (Fin 1)),
            (''micro_brewery_count'', Num (Fin 1))]] \<and>
   table_of (agg_data_trust_score gold_df) =
     Some [[(''state_province'', Str ''CA''), (''trust_score'', Num (Fin 100))]]"
  by code_simp

end
